theory Spec2Isabelle
  imports Main "HOL-Library.Word" "HOL-Library.AList"
begin

unbundle bit_operations_syntax

chapter \<open>The Aqua external verifier and notarizer: model\<close>

text \<open>
  A shallow embedding of the JavaScript sources
  \<^item> \<^verbatim>\<open>src/dist/index.js\<close> (the v1.2 verifier library),
  \<^item> \<^verbatim>\<open>src/index.js\<close> (the older page verifier working against the MediaWiki API),
  \<^item> \<^verbatim>\<open>src/verifier.js\<close> (the oldest stand-alone verifier script),
  \<^item> \<^verbatim>\<open>src/notarize.js\<close> (the chain builder).

  JavaScript strings are modelled as lists of code units below 256 (\<^typ>\<open>string\<close>), byte
  buffers as lists of \<^typ>\<open>8 word\<close>. Objects whose key order matters are association lists
  in \<^verbatim>\<open>Object.keys\<close> order. Where two files define a function of the same name, the
  one of \<^verbatim>\<open>src/dist/index.js\<close> keeps the plain name, the one of \<^verbatim>\<open>src/index.js\<close> gets the
  suffix \<open>_index\<close> and the one of \<^verbatim>\<open>src/verifier.js\<close> the suffix \<open>_verifier\<close>.
  What the code obtains from the network, the file system or a wallet is a parameter of
  the model.
\<close>

section \<open>JavaScript strings\<close>

text \<open>\<^verbatim>\<open>String.prototype.toLowerCase\<close> on code units below 256: the ASCII capitals and the
  Latin-1 capitals (\<open>0xC0\<close> to \<open>0xDE\<close> without the multiplication sign \<open>0xD7\<close>) move up
  by 32.\<close>

definition lower_char :: "char \<Rightarrow> char" where
  "lower_char c =
    (let n = of_char c :: nat
     in if (65 \<le> n \<and> n \<le> 90) \<or> (192 \<le> n \<and> n \<le> 222 \<and> n \<noteq> 215)
        then char_of (n + 32) else c)"

definition toLowerCase :: "string \<Rightarrow> string" where
  "toLowerCase s = map lower_char s"

definition startsWith :: "string \<Rightarrow> string \<Rightarrow> bool" where
  "startsWith s p = (take (length p) s = p)"

text \<open>\<^verbatim>\<open>s.slice(b, e)\<close> for constant indices \<open>0 \<le> b \<le> e\<close>.\<close>

definition slice :: "nat \<Rightarrow> nat \<Rightarrow> string \<Rightarrow> string" where
  "slice b e s = take (e - b) (drop b s)"

section \<open>SHA3-512 as the library js-sha3 computes it\<close>

text \<open>
  Every hash of the program is \<^verbatim>\<open>sha3.sha3_512\<close> of the package js-sha3: SHA3-512 of
  FIPS 202 (Keccak-f[1600], rate 72 bytes, domain byte \<open>0x06\<close>), returned as 128 lowercase
  hexadecimal digits. A string argument is hashed in its UTF-8 encoding, a buffer byte by
  byte. The state is the list of the 25 lanes, lane \<open>(x, y)\<close> at index \<open>x + 5 * y\<close>.
\<close>

type_synonym byte = "8 word"
type_synonym lane = "64 word"

definition keccak_round_constants :: "lane list" where
  "keccak_round_constants =
    [0x0000000000000001, 0x0000000000008082, 0x800000000000808A, 0x8000000080008000,
     0x000000000000808B, 0x0000000080000001, 0x8000000080008081, 0x8000000000008009,
     0x000000000000008A, 0x0000000000000088, 0x0000000080008009, 0x000000008000000A,
     0x000000008000808B, 0x800000000000008B, 0x8000000000008089, 0x8000000000008003,
     0x8000000000008002, 0x8000000000000080, 0x000000000000800A, 0x800000008000000A,
     0x8000000080008081, 0x8000000000008080, 0x0000000080000001, 0x8000000080008008]"

definition keccak_rotation_offsets :: "nat list" where
  "keccak_rotation_offsets =
    [0, 1, 62, 28, 27,
     36, 44, 6, 55, 20,
     3, 10, 43, 25, 39,
     41, 45, 15, 21, 8,
     18, 2, 61, 56, 14]"

text \<open>Rotation of a lane to the left by \<open>n\<close> places, \<open>n\<close> below 64.\<close>

definition rotl64 :: "nat \<Rightarrow> lane \<Rightarrow> lane" where
  "rotl64 n w = push_bit n w OR drop_bit (64 - n) w"

definition theta :: "lane list \<Rightarrow> lane list" where
  "theta a =
    (let c = map (\<lambda>x. a ! x XOR a ! (x + 5) XOR a ! (x + 10) XOR a ! (x + 15) XOR a ! (x + 20))
               [0..<5];
         d = map (\<lambda>x. c ! ((x + 4) mod 5) XOR rotl64 1 (c ! ((x + 1) mod 5))) [0..<5]
     in map (\<lambda>i. a ! i XOR d ! (i mod 5)) [0..<25])"

text \<open>Lane \<open>(x, y)\<close>, rotated, moves to \<open>(y, 2 * x + 3 * y)\<close>; read from the target \<open>j\<close>.\<close>

definition rho_pi :: "lane list \<Rightarrow> lane list" where
  "rho_pi a =
    map (\<lambda>j. let i = (j mod 5 + 3 * (j div 5)) mod 5 + 5 * (j mod 5)
             in rotl64 (keccak_rotation_offsets ! i) (a ! i)) [0..<25]"

definition chi :: "lane list \<Rightarrow> lane list" where
  "chi b =
    map (\<lambda>j. let x = j mod 5; row = 5 * (j div 5)
             in b ! j XOR (NOT (b ! ((x + 1) mod 5 + row)) AND b ! ((x + 2) mod 5 + row)))
        [0..<25]"

definition iota :: "lane \<Rightarrow> lane list \<Rightarrow> lane list" where
  "iota rc a = a[0 := a ! 0 XOR rc]"

definition keccak_round :: "lane \<Rightarrow> lane list \<Rightarrow> lane list" where
  "keccak_round rc a = iota rc (chi (rho_pi (theta a)))"

definition keccak_f :: "lane list \<Rightarrow> lane list" where
  "keccak_f a = fold keccak_round keccak_round_constants a"

definition lane_of_bytes :: "byte list \<Rightarrow> lane" where
  "lane_of_bytes bs = foldr (\<lambda>b w. ucast b OR push_bit 8 w) bs 0"

fun lanes_of_block :: "byte list \<Rightarrow> lane list" where
  "lanes_of_block (a # b # c # d # e # f # g # h # rest) =
     lane_of_bytes [a, b, c, d, e, f, g, h] # lanes_of_block rest"
| "lanes_of_block _ = []"

definition sha3_512_rate :: nat where
  "sha3_512_rate = 72"

definition sha3_pad :: "byte list \<Rightarrow> byte list" where
  "sha3_pad m =
    (let q = sha3_512_rate - length m mod sha3_512_rate
     in if q = 1 then m @ [0x86] else m @ [0x06] @ replicate (q - 2) 0 @ [0x80])"

definition absorb_block :: "lane list \<Rightarrow> byte list \<Rightarrow> lane list" where
  "absorb_block st blk =
    keccak_f (map (\<lambda>(s, l). s XOR l) (zip st (lanes_of_block blk @ replicate 16 0)))"

fun absorb :: "nat \<Rightarrow> lane list \<Rightarrow> byte list \<Rightarrow> lane list" where
  "absorb 0 st bs = st"
| "absorb (Suc n) st bs =
     absorb n (absorb_block st (take sha3_512_rate bs)) (drop sha3_512_rate bs)"

definition squeeze_byte :: "lane list \<Rightarrow> nat \<Rightarrow> byte" where
  "squeeze_byte st k = ucast (drop_bit (8 * (k mod 8)) (st ! (k div 8)))"

definition hex_digit :: "nat \<Rightarrow> char" where
  "hex_digit n = ''0123456789abcdef'' ! (n mod 16)"

definition hex_of_byte :: "byte \<Rightarrow> string" where
  "hex_of_byte b = [hex_digit (unat b div 16), hex_digit (unat b mod 16)]"

definition sha3_512_bytes :: "byte list \<Rightarrow> string" where
  "sha3_512_bytes m =
    (let p = sha3_pad m;
         st = absorb (length p div sha3_512_rate) (replicate 25 0) p
     in concat (map (\<lambda>k. hex_of_byte (squeeze_byte st k)) [0..<64]))"

definition utf8_of_char :: "char \<Rightarrow> byte list" where
  "utf8_of_char c =
    (let n = of_char c :: nat
     in if n < 128 then [of_nat n] else [of_nat (192 + n div 64), of_nat (128 + n mod 64)])"

definition utf8 :: "string \<Rightarrow> byte list" where
  "utf8 s = concat (map utf8_of_char s)"

definition sha3_512 :: "string \<Rightarrow> string" where
  "sha3_512 s = sha3_512_bytes (utf8 s)"

definition is_lower_hex :: "char \<Rightarrow> bool" where
  "is_lower_hex c = (c \<in> set ''0123456789abcdef'')"

section \<open>The hashing primitive getHashSum\<close>

text \<open>\<^verbatim>\<open>src/index.js\<close> (lines 87 to 92) and \<^verbatim>\<open>src/dist/index.js\<close> (lines 104 to 106) define
  the same function: the empty string is kept, everything else is hashed.\<close>

definition getHashSum :: "string \<Rightarrow> string" where
  "getHashSum content = (if content = '''' then '''' else sha3_512 content)"

text \<open>\<^verbatim>\<open>src/verifier.js\<close> (lines 20 to 22) hashes every argument.\<close>

definition getHashSum_verifier :: "string \<Rightarrow> string" where
  "getHashSum_verifier content = sha3_512 content"

section \<open>The Ethereum transaction check (src/dist/index.js, lines 64 to 101)\<close>

text \<open>What \<^verbatim>\<open>provider.getTransaction(txHash)\<close> yields: an exception with its message, no
  transaction (\<^verbatim>\<open>null\<close>), or a transaction with its input data \<^verbatim>\<open>tx.data\<close>.\<close>

datatype tx_fetch = TxThrows string | TxNotFound | TxData string

text \<open>The JSON-RPC provider is a parameter: from the RPC URL and the transaction hash to
  the outcome of the lookup.\<close>

type_synonym provider = "string \<Rightarrow> string \<Rightarrow> tx_fetch"

record check_result =
  verificationHashMatches :: bool
  message :: string
  successful :: bool

definition networkRpcMap :: "(string \<times> string) list" where
  "networkRpcMap =
    [(''mainnet'', ''https://eth-mainnet.g.alchemy.com/v2/''),
     (''holesky'', ''https://eth-holesky.g.alchemy.com/v2/''),
     (''sepolia'', ''https://eth-sepolia.g.alchemy.com/v2/'')]"

text \<open>\<^verbatim>\<open>networkRpcMap[network] + alchemyKey\<close>: a network outside the table reads
  \<^verbatim>\<open>undefined\<close>, which the concatenation prints.\<close>

definition rpcUrl_of :: "string \<Rightarrow> string \<Rightarrow> string" where
  "rpcUrl_of network alchemyKey =
    (case map_of networkRpcMap network of Some u \<Rightarrow> u | None \<Rightarrow> ''undefined'') @ alchemyKey"

definition functionSelector :: string where
  "functionSelector = ''0x9cef4ea1''"

definition checkTransaction ::
  "provider \<Rightarrow> string \<Rightarrow> string \<Rightarrow> string \<Rightarrow> string \<Rightarrow> check_result" where
  "checkTransaction getTransaction network txHash expectedVerificationHash alchemyKey =
    (let result = \<lparr>verificationHashMatches = False, message = '''', successful = False\<rparr>;
         rpcUrl = rpcUrl_of network alchemyKey
     in if rpcUrl = ''''
        then result\<lparr>message := ''An error occurred: Unsupported network: '' @ network\<rparr>
        else
          (case getTransaction rpcUrl txHash of
            TxThrows e \<Rightarrow> result\<lparr>message := ''An error occurred: '' @ e\<rparr>
          | TxNotFound \<Rightarrow> result\<lparr>message := ''Transaction not found''\<rparr>
          | TxData inputData \<Rightarrow>
              if startsWith inputData functionSelector
              then
                (let actualVerificationHash = slice 10 (10 + 128) inputData;
                     hashMatches =
                       (toLowerCase actualVerificationHash = toLowerCase expectedVerificationHash)
                 in result\<lparr>verificationHashMatches := hashMatches,
                      successful := hashMatches,
                      message := (if hashMatches then ''Verification hash matches''
                                  else ''Verification hash does not match'')\<rparr>)
              else result\<lparr>message :=
                     ''Transaction data does not contain expected function selector''\<rparr>))"

section \<open>Traversal of a witness Merkle proof\<close>

record merkle_node =
  left_leaf :: string
  right_leaf :: string
  successor :: string

text \<open>The loop of \<^verbatim>\<open>verifyMerkleIntegrity\<close> in \<^verbatim>\<open>src/dist/index.js\<close> (lines 204 to 230).
  \<open>prevSuccessor\<close> starts as \<^verbatim>\<open>null\<close> (\<open>None\<close>); the test \<^verbatim>\<open>if (prevSuccessor)\<close> is
  false for \<^verbatim>\<open>null\<close> and for the empty string.\<close>

fun merkleLoop :: "string option \<Rightarrow> string \<Rightarrow> merkle_node list \<Rightarrow> bool" where
  "merkleLoop prevSuccessor verificationHash [] = True"
| "merkleLoop prevSuccessor verificationHash (node # rest) =
    (let leaves = [left_leaf node, right_leaf node];
         expected = (case prevSuccessor of
                       None \<Rightarrow> verificationHash
                     | Some p \<Rightarrow> if p \<noteq> '''' then p else verificationHash)
     in if expected \<notin> set leaves then False
        else
          (let calculatedSuccessor =
                 (if left_leaf node = '''' then right_leaf node
                  else if right_leaf node = '''' then left_leaf node
                  else getHashSum (left_leaf node @ right_leaf node))
           in if calculatedSuccessor \<noteq> successor node then False
              else merkleLoop (Some (successor node)) verificationHash rest))"

definition verifyMerkleIntegrity :: "merkle_node list \<Rightarrow> string \<Rightarrow> bool" where
  "verifyMerkleIntegrity merkleBranch verificationHash =
    (if length merkleBranch = 0 then False
     else merkleLoop None verificationHash merkleBranch)"

text \<open>The same function in \<^verbatim>\<open>src/index.js\<close> (lines 175 to 204): no test for an empty
  branch, and the successor is always \<^verbatim>\<open>getHashSum(node.left_leaf + node.right_leaf)\<close>.\<close>

fun merkleLoop_index :: "string option \<Rightarrow> string \<Rightarrow> merkle_node list \<Rightarrow> bool" where
  "merkleLoop_index prevSuccessor verificationHash [] = True"
| "merkleLoop_index prevSuccessor verificationHash (node # rest) =
    (let leaves = [left_leaf node, right_leaf node];
         expected = (case prevSuccessor of
                       None \<Rightarrow> verificationHash
                     | Some p \<Rightarrow> if p \<noteq> '''' then p else verificationHash)
     in if expected \<notin> set leaves then False
        else
          (let calculatedSuccessor = getHashSum (left_leaf node @ right_leaf node)
           in if calculatedSuccessor \<noteq> successor node then False
              else merkleLoop_index (Some (successor node)) verificationHash rest))"

definition verifyMerkleIntegrity_index :: "merkle_node list \<Rightarrow> string \<Rightarrow> bool" where
  "verifyMerkleIntegrity_index merkleBranch verificationHash =
    merkleLoop_index None verificationHash merkleBranch"

text \<open>The proof traversal as the specification words it: start from the revision's hash;
  each node's pair of leaves contains the previous successor; each node's successor is
  the one computed from its leaves (by \<open>compute\<close>).\<close>

fun proof_chain :: "(string \<Rightarrow> string \<Rightarrow> string) \<Rightarrow> string \<Rightarrow> merkle_node list \<Rightarrow> bool" where
  "proof_chain compute prev [] = True"
| "proof_chain compute prev (node # rest) =
    ((prev = left_leaf node \<or> prev = right_leaf node) \<and>
     successor node = compute (left_leaf node) (right_leaf node) \<and>
     proof_chain compute (successor node) rest)"

text \<open>\<open>sha3_512(left || right)\<close>, or the other leaf unchanged when one leaf is empty.\<close>

definition promote_or_hash :: "string \<Rightarrow> string \<Rightarrow> string" where
  "promote_or_hash l r = (if l = '''' then r else if r = '''' then l else sha3_512 (l @ r))"

text \<open>\<open>sha3_512(left || right)\<close> throughout, with the convention of \<open>getHashSum\<close> for two
  empty leaves.\<close>

definition hash_pair :: "string \<Rightarrow> string \<Rightarrow> string" where
  "hash_pair l r = (if l @ r = '''' then '''' else sha3_512 (l @ r))"

section \<open>Witness verification of the v1.2 verifier (src/dist/index.js, lines 173 to 199)\<close>

record witness_data =
  domain_snapshot_genesis_hash :: string
  merkle_root :: string
  witness_network :: string
  witness_event_transaction_hash :: string
  witness_event_verification_hash :: string
  structured_merkle_proof :: "merkle_node list"

definition verifyWitnessUtil ::
  "provider \<Rightarrow> witness_data \<Rightarrow> string \<Rightarrow> bool \<Rightarrow> string \<Rightarrow> bool \<times> string" where
  "verifyWitnessUtil getTransaction witnessData verification_hash doVerifyMerkleProof alchemyKey =
    (let actual_witness_event_verification_hash =
           getHashSum (domain_snapshot_genesis_hash witnessData @ merkle_root witnessData);
         tx_hash =
           (if startsWith (witness_event_transaction_hash witnessData) ''0x''
            then witness_event_transaction_hash witnessData
            else ''0x'' @ witness_event_transaction_hash witnessData);
         etherScanResult =
           checkTransaction getTransaction (witness_network witnessData) tx_hash
             actual_witness_event_verification_hash alchemyKey
     in if actual_witness_event_verification_hash \<noteq> witness_event_verification_hash witnessData
        then (False, ''Verification hashes do not match'')
        else if doVerifyMerkleProof
        then
          (if verification_hash = domain_snapshot_genesis_hash witnessData
           then (True, ''Verification hash is the same us domain snapshot genesis hash'')
           else
             (let merkleProofIsOK =
                    verifyMerkleIntegrity (structured_merkle_proof witnessData) verification_hash
              in (merkleProofIsOK,
                  if merkleProofIsOK then ''Merkle proof is OK''
                  else ''Error verifying merkle proof'')))
        else (successful etherScanResult, message etherScanResult))"

section \<open>The v1.2 data model (src/dist/index.js, \<^verbatim>\<open>src/v1_2/models.ts\<close>)\<close>

text \<open>A field that may hold \<^verbatim>\<open>null\<close> or be absent is an \<open>option\<close>. The slots of
  \<^verbatim>\<open>revision.content.content\<close> (among them \<^verbatim>\<open>file_hash\<close>, when the revision has a file)
  and the revisions of a chain are objects read in key order.\<close>

record revision_metadata =
  domain_id :: string
  time_stamp :: string
  previous_verification_hash :: "string option"
  merge_hash :: "string option"
  metadata_hash :: string

record revision_signature =
  signature :: string
  wallet_address :: string

record revision_content =
  content :: "(string \<times> string) list"
  content_hash :: string
  file_data :: "string option"

record revision =
  rev_content :: revision_content
  rev_metadata :: revision_metadata
  rev_signature :: "revision_signature option"
  rev_witness :: "witness_data option"

record hash_chain =
  revisions :: "(string \<times> revision) list"

record page_data =
  pages :: "hash_chain list"

datatype js_error = TypeError string

text \<open>\<^verbatim>\<open>getTimestampDirect\<close> (lines 41 to 48). A result \<open>None\<close> is \<^verbatim>\<open>undefined\<close>. For a first
  page without revisions, \<^verbatim>\<open>Object.keys(...)[0]\<close> is \<^verbatim>\<open>undefined\<close>, the lookup yields
  \<^verbatim>\<open>undefined\<close>, and reading \<^verbatim>\<open>.metadata\<close> of it throws.\<close>

definition getTimestampDirect :: "page_data \<Rightarrow> js_error + string option" where
  "getTimestampDirect pageData =
    (if length (pages pageData) > 0
     then
       (let firstPage = hd (pages pageData)
        in case map fst (revisions firstPage) of
             [] \<Rightarrow> Inl (TypeError ''Cannot read properties of undefined (reading metadata)'')
           | firstRevisionKey # _ \<Rightarrow>
               (case map_of (revisions firstPage) firstRevisionKey of
                  None \<Rightarrow> Inl (TypeError ''Cannot read properties of undefined (reading metadata)'')
                | Some r \<Rightarrow> Inr (Some (time_stamp (rev_metadata r)))))
     else Inr None)"

text \<open>\<^verbatim>\<open>getTimestampSafe\<close> (lines 49 to 51): every step that may meet \<^verbatim>\<open>undefined\<close> is an
  optional chain, which ends the whole expression with \<^verbatim>\<open>undefined\<close>.\<close>

definition getTimestampSafe :: "page_data \<Rightarrow> js_error + string option" where
  "getTimestampSafe pageData =
    (case pages pageData of
       [] \<Rightarrow> Inr None
     | firstPage # _ \<Rightarrow>
         (case map fst (revisions firstPage) of
            [] \<Rightarrow> Inr None
          | firstRevisionKey # _ \<Rightarrow>
              (case map_of (revisions firstPage) firstRevisionKey of
                 None \<Rightarrow> Inr None
               | Some r \<Rightarrow> Inr (Some (time_stamp (rev_metadata r))))))"

section \<open>The v1.2 revision verifier (src/dist/index.js, lines 107 to 172 and 234 to 290)\<close>

text \<open>The libraries and services the verifier calls: \<^verbatim>\<open>ethers.hashMessage\<close>,
  \<^verbatim>\<open>ethers.recoverAddress\<close> (\<open>Inl\<close>: it throws, with the text of the exception; \<open>Inr\<close>:
  the recovered address), the JSON-RPC provider, and the bytes that
  \<^verbatim>\<open>Buffer.from(b64, "base64")\<close> decodes.\<close>

record externals =
  hashMessage :: "string \<Rightarrow> string"
  recoverAddress :: "string \<Rightarrow> string \<Rightarrow> string + string"
  getTransaction :: provider
  base64_decode :: "string \<Rightarrow> byte list"

definition generateHashFromBase64 :: "externals \<Rightarrow> string \<Rightarrow> string" where
  "generateHashFromBase64 ext b64 = sha3_512_bytes (base64_decode ext b64)"

text \<open>\<^verbatim>\<open>verifyFileUtil\<close>: the pair of the flag and the \<^verbatim>\<open>error_message\<close> (\<open>None\<close> is
  \<^verbatim>\<open>null\<close>). \<^verbatim>\<open>data.content.file_hash || null\<close> is \<^verbatim>\<open>null\<close> for a missing and for an
  empty slot.\<close>

definition verifyFileUtil :: "externals \<Rightarrow> revision_content \<Rightarrow> bool \<times> string option" where
  "verifyFileUtil ext data =
    (let fileContentHash =
           (case map_of (content data) ''file_hash'' of
              None \<Rightarrow> None
            | Some h \<Rightarrow> if h = '''' then None else Some h)
     in case fileContentHash of
          None \<Rightarrow> (False, Some ''Revision contains a file, but no file content hash'')
        | Some h \<Rightarrow>
            (let fileContent = file_data data;
                 hashFromb64 =
                   generateHashFromBase64 ext (case fileContent of None \<Rightarrow> '''' | Some d \<Rightarrow> d)
             in if h \<noteq> hashFromb64 then (False, Some ''File content hash does not match'')
                else (True, None)))"

definition verifyContentUtil :: "revision_content \<Rightarrow> bool \<times> string" where
  "verifyContentUtil data =
    (let slots = concat (map snd (content data));
         contentHash = getHashSum slots;
         contentHashMatches = (contentHash = content_hash data)
     in if contentHashMatches then (contentHashMatches, contentHash)
        else (False, ''Content hash does not match''))"

definition calculateMetadataHash :: "string \<Rightarrow> string \<Rightarrow> string \<Rightarrow> string \<Rightarrow> string" where
  "calculateMetadataHash domainId timestamp previousVerificationHash mergeHash =
    getHashSum (domainId @ timestamp @ previousVerificationHash @ mergeHash)"

definition verifyMetadataUtil :: "revision_metadata \<Rightarrow> bool \<times> string" where
  "verifyMetadataUtil data =
    (let metadataHash =
           calculateMetadataHash (domain_id data) (time_stamp data)
             (case previous_verification_hash data of None \<Rightarrow> '''' | Some h \<Rightarrow> h)
             (case merge_hash data of None \<Rightarrow> '''' | Some h \<Rightarrow> h);
         metadataHashMatches = (metadataHash = metadata_hash data)
     in if metadataHashMatches then (metadataHashMatches, metadataHash)
        else (False, ''Metadata hash does not match''))"

text \<open>\<^verbatim>\<open>verifySignatureUtil\<close> (lines 154 to 172).\<close>

definition paddedMessage :: "string \<Rightarrow> string" where
  "paddedMessage verificationHash =
    ''I sign the following page verification_hash: [0x'' @ verificationHash @ '']''"

definition verifySignatureUtil :: "externals \<Rightarrow> revision_signature \<Rightarrow> string \<Rightarrow> bool \<times> string" where
  "verifySignatureUtil ext data verificationHash =
    (if verificationHash = '''' then (False, ''Verification hash must not be empty'')
     else
       (case recoverAddress ext (hashMessage ext (paddedMessage verificationHash)) (signature data) of
          Inl e \<Rightarrow> (False, ''An error occured retrieving signature : '' @ e)
        | Inr recoveredAddress \<Rightarrow>
            (let signatureOk = (toLowerCase recoveredAddress = toLowerCase (wallet_address data))
             in (signatureOk,
                 if signatureOk then ''Signature is Valid'' else ''Signature is invalid''))))"

datatype ResultStatusEnum = MISSING | AVAILABLE

record result_status =
  status :: ResultStatusEnum
  status_successful :: bool
  status_message :: string

record revision_result =
  revision_successful :: bool
  file_verification :: result_status
  content_verification :: result_status
  witness_verification :: result_status
  signature_verification :: result_status
  metadata_verification :: result_status

definition defaultResultStatus :: result_status where
  "defaultResultStatus = \<lparr>status = MISSING, status_successful = False, status_message = ''''\<rparr>"

definition available :: "bool \<Rightarrow> string \<Rightarrow> result_status" where
  "available ok msg = \<lparr>status = AVAILABLE, status_successful = ok, status_message = msg\<rparr>"

text \<open>The closing loop of \<^verbatim>\<open>verifyRevision\<close> over the sub-results, which stops at the first
  available and unsuccessful one.\<close>

fun allSuccessfulLoop :: "result_status list \<Rightarrow> bool" where
  "allSuccessfulLoop [] = True"
| "allSuccessfulLoop (verification # rest) =
    (if status verification = AVAILABLE \<and> \<not> status_successful verification then False
     else allSuccessfulLoop rest)"

definition verifyRevision :: "externals \<Rightarrow> revision \<Rightarrow> string \<Rightarrow> revision_result" where
  "verifyRevision ext revision alchemyKey =
    (let (fileIsCorrect, fileOut) = verifyFileUtil ext (rev_content revision);
         file_v = available fileIsCorrect (case fileOut of None \<Rightarrow> '''' | Some m \<Rightarrow> m);
         (verifyContentIsOkay, resultMessage) = verifyContentUtil (rev_content revision);
         content_v = available verifyContentIsOkay resultMessage;
         (metadataOk, metadataHashMessage) = verifyMetadataUtil (rev_metadata revision);
         metadata_v = available metadataOk metadataHashMessage;
         previous =
           (case previous_verification_hash (rev_metadata revision) of
              None \<Rightarrow> '''' | Some h \<Rightarrow> h);
         signature_v =
           (case rev_signature revision of
              None \<Rightarrow> defaultResultStatus
            | Some s \<Rightarrow>
                (let (signatureOk, signatureMessage) = verifySignatureUtil ext s previous
                 in available signatureOk signatureMessage));
         witness_v =
           (case rev_witness revision of
              None \<Rightarrow> defaultResultStatus
            | Some w \<Rightarrow>
                (let (success, msg) =
                       verifyWitnessUtil (getTransaction ext) w previous
                         (length (structured_merkle_proof w) > 1) alchemyKey
                 in available success msg));
         allSuccessful =
           allSuccessfulLoop [file_v, content_v, witness_v, signature_v, metadata_v]
     in \<lparr>revision_successful = allSuccessful,
         file_verification = file_v,
         content_verification = content_v,
         witness_verification = witness_v,
         signature_verification = signature_v,
         metadata_verification = metadata_v\<rparr>)"

text \<open>\<^verbatim>\<open>verifySignature\<close> (lines 291 to 302), the entry point for one signature.\<close>

definition verifySignature :: "externals \<Rightarrow> revision_signature \<Rightarrow> string \<Rightarrow> result_status" where
  "verifySignature ext sig previousVerificationHash =
    (let (signatureOk, signatureMessage) = verifySignatureUtil ext sig previousVerificationHash
     in available signatureOk signatureMessage)"

section \<open>The v1.2 chain verifier (src/dist/index.js, lines 315 to 334)\<close>

record chain_result =
  chain_successful :: bool
  revisionResults :: "revision_result list"

text \<open>The first loop: one run of \<^verbatim>\<open>verifyRevision\<close> for each key of
  \<^verbatim>\<open>Object.keys(aquaChain.revisions)\<close>, in that order, on the revision stored under the key.
  An absent revision would make \<^verbatim>\<open>verifyRevision\<close> throw on \<^verbatim>\<open>revision.content\<close>.\<close>

fun verifyLoop ::
  "externals \<Rightarrow> string \<Rightarrow> (string \<times> revision) list \<Rightarrow> string list \<Rightarrow>
    revision_result list \<Rightarrow> js_error + revision_result list" where
  "verifyLoop ext alchemyKey revs [] results = Inr results"
| "verifyLoop ext alchemyKey revs (h # hashes) results =
    (case map_of revs h of
       None \<Rightarrow> Inl (TypeError ''Cannot read properties of undefined (reading content)'')
     | Some revision \<Rightarrow>
         verifyLoop ext alchemyKey revs hashes (results @ [verifyRevision ext revision alchemyKey]))"

text \<open>The second loop: the flag starts \<^verbatim>\<open>true\<close> and falls at the first unsuccessful
  result.\<close>

fun successLoop :: "revision_result list \<Rightarrow> bool \<Rightarrow> bool" where
  "successLoop [] flag = flag"
| "successLoop (revisionResult # rest) flag =
    (if \<not> revision_successful revisionResult then False else successLoop rest flag)"

definition verifyAquaChain :: "externals \<Rightarrow> hash_chain \<Rightarrow> string \<Rightarrow> js_error + chain_result" where
  "verifyAquaChain ext aquaChain alchemyKey =
    (let revisionHashes = map fst (revisions aquaChain)
     in case verifyLoop ext alchemyKey (revisions aquaChain) revisionHashes [] of
          Inl e \<Rightarrow> Inl e
        | Inr results \<Rightarrow>
            Inr \<lparr>chain_successful = successLoop results True, revisionResults = results\<rparr>)"

section \<open>The page verifier of src/index.js (lines 593 to 608 and 637 to 738)\<close>

text \<open>The signature block of \<^verbatim>\<open>verifyRevision\<close> in \<^verbatim>\<open>src/index.js\<close> (lines 593 to 608): the
  same padded message over the revision's own verification hash, no test for an empty
  hash, and an exception of the recovery caught and dropped.\<close>

definition validSignature_index :: "externals \<Rightarrow> string \<Rightarrow> string \<Rightarrow> string \<Rightarrow> bool" where
  "validSignature_index ext verification_hash sig wallet =
    (case recoverAddress ext (hashMessage ext (paddedMessage verification_hash)) sig of
       Inl e \<Rightarrow> False
     | Inr recoveredAddress \<Rightarrow> toLowerCase recoveredAddress = toLowerCase wallet)"

text \<open>What a \<^verbatim>\<open>fetch\<close> yields: a rejected promise, a response that is not \<^verbatim>\<open>ok\<close> (with
  the text of \<^verbatim>\<open>formatHTTPError\<close>), or the parsed body.\<close>

datatype 'a http = FetchFails string | HttpError string | HttpOk 'a

text \<open>The body of \<^verbatim>\<open>get_page_all_revs\<close>: an object with an \<^verbatim>\<open>error\<close> property, or the
  list of revisions, of which the verifier reads the \<^verbatim>\<open>rev_id\<close>s.\<close>

datatype all_revs = ApiError string | RevIds "nat list"

datatype page_exception = HttpFailure string | NoWikitext nat | Rejected string

text \<open>The MediaWiki server: the two requests of \<^verbatim>\<open>verifyPage\<close>, and the outcome of
  \<^verbatim>\<open>verifyRevision\<close> (lines 497 to 616), which itself talks to the server. Its arguments
  are the API URL, the revision id, the previous revision id (\<open>None\<close>: the empty string
  of the first round), the previous verification hash (\<open>None\<close>: \<^verbatim>\<open>null\<close>), the content
  hash and the two flags; it returns the verification hash, the flag \<^verbatim>\<open>isCorrect\<close> and the
  detail, or throws.\<close>

record 'd wiki_server =
  fetch_all_revs :: "string \<Rightarrow> all_revs http"
  fetch_wikitext :: "string \<Rightarrow> nat \<Rightarrow> string option http"
  verifyRevision_index ::
    "string \<Rightarrow> nat \<Rightarrow> nat option \<Rightarrow> string option \<Rightarrow> string \<Rightarrow> bool \<Rightarrow> bool \<Rightarrow>
      page_exception + (string option \<times> bool \<times> 'd)"

datatype page_status = ERROR | INVALID | VERIFIED | NORECORD

text \<open>The results of \<^verbatim>\<open>verifyPage\<close>: \<^verbatim>\<open>[ERROR, {error: ...}]\<close>, or a status with
  \<^verbatim>\<open>details.verified_ids\<close> and \<^verbatim>\<open>details.revision_details\<close>.\<close>

datatype 'd page_result = PageError string | PageDetails page_status "nat list" "'d list"

text \<open>One round of the loop up to the call of \<^verbatim>\<open>verifyRevision\<close> (lines 680 to 706).\<close>

definition revisionRound ::
  "'d wiki_server \<Rightarrow> string \<Rightarrow> bool \<Rightarrow> bool \<Rightarrow> nat \<Rightarrow> nat option \<Rightarrow> string option \<Rightarrow>
    page_exception + (string option \<times> bool \<times> 'd)" where
  "revisionRound srv server doLog doVerifyMerkleProof revid previousRevId previousVerificationHash =
    (case fetch_wikitext srv server revid of
       FetchFails e \<Rightarrow> Inl (Rejected e)
     | HttpError e \<Rightarrow> Inl (HttpFailure e)
     | HttpOk None \<Rightarrow> Inl (NoWikitext revid)
     | HttpOk (Some wikitext) \<Rightarrow>
         if wikitext = '''' then Inl (NoWikitext revid)
         else
           (let contentHash = getHashSum wikitext;
                isHtml = (\<not> doLog)
            in verifyRevision_index srv (server @ ''/rest.php/data_accounting/v1'') revid
                 previousRevId previousVerificationHash contentHash isHtml doVerifyMerkleProof))"

text \<open>The loop (lines 679 to 725) and the status after it (lines 726 to 737).\<close>

fun pageLoop ::
  "'d wiki_server \<Rightarrow> string \<Rightarrow> bool \<Rightarrow> bool \<Rightarrow> nat list \<Rightarrow> nat list \<Rightarrow> nat option \<Rightarrow>
    string option \<Rightarrow> nat \<Rightarrow> 'd list \<Rightarrow> page_exception + 'd page_result" where
  "pageLoop srv server doLog dvmp verifiedRevIds [] previousRevId previousVerificationHash
      count revision_details =
    (let st = (if count = length verifiedRevIds
               then (if count = 0 then NORECORD else VERIFIED)
               else INVALID)
     in Inr (PageDetails st verifiedRevIds revision_details))"
| "pageLoop srv server doLog dvmp verifiedRevIds (revid # rest) previousRevId
      previousVerificationHash count revision_details =
    (case revisionRound srv server doLog dvmp revid previousRevId previousVerificationHash of
       Inl e \<Rightarrow> Inl e
     | Inr (verificationHash, isCorrect, detail) \<Rightarrow>
         if isCorrect
         then pageLoop srv server doLog dvmp verifiedRevIds rest (Some revid) verificationHash
                (count + 1) (revision_details @ [detail])
         else Inr (PageDetails INVALID verifiedRevIds (revision_details @ [detail])))"

definition verifyPage ::
  "'d wiki_server \<Rightarrow> string \<Rightarrow> string \<Rightarrow> bool \<Rightarrow> bool \<Rightarrow> bool \<Rightarrow>
    page_exception + 'd page_result" where
  "verifyPage srv title server verbose doLog doVerifyMerkleProof =
    (if CHR ''_'' \<in> set title
     then Inr (PageError ''INVALID TITLE: Do not use underscore in title.'')
     else
       (case fetch_all_revs srv
               (server @ ''/rest.php/data_accounting/v1'' @ ''/get_page_all_revs/'' @ title) of
          FetchFails e \<Rightarrow> Inr (PageError e)
        | HttpError e \<Rightarrow> Inr (PageError e)
        | HttpOk (ApiError e) \<Rightarrow> Inr (PageError e)
        | HttpOk (RevIds verifiedRevIds) \<Rightarrow>
            pageLoop srv server doLog doVerifyMerkleProof verifiedRevIds verifiedRevIds
              None (Some '''') 0 []))"

text \<open>The chain verifier as the specification words it: every revision is verified, in
  order, with the previous identifiers threaded, whatever the earlier results were. An
  exception ends the run in either version.\<close>

fun verifyEvery ::
  "'d wiki_server \<Rightarrow> string \<Rightarrow> bool \<Rightarrow> bool \<Rightarrow> nat list \<Rightarrow> nat option \<Rightarrow> string option \<Rightarrow>
    page_exception + (string option \<times> bool \<times> 'd) list" where
  "verifyEvery srv server doLog dvmp [] previousRevId previousVerificationHash = Inr []"
| "verifyEvery srv server doLog dvmp (revid # rest) previousRevId previousVerificationHash =
    (case revisionRound srv server doLog dvmp revid previousRevId previousVerificationHash of
       Inl e \<Rightarrow> Inl e
     | Inr (verificationHash, isCorrect, detail) \<Rightarrow>
         (case verifyEvery srv server doLog dvmp rest (Some revid) verificationHash of
            Inl e \<Rightarrow> Inl e
          | Inr results \<Rightarrow> Inr ((verificationHash, isCorrect, detail) # results)))"

text \<open>The results up to and including the first one that is not correct.\<close>

fun upto_first_failure :: "(string option \<times> bool \<times> 'd) list \<Rightarrow> (string option \<times> bool \<times> 'd) list" where
  "upto_first_failure [] = []"
| "upto_first_failure ((h, isCorrect, d) # rest) =
    (if isCorrect then (h, isCorrect, d) # upto_first_failure rest else [(h, isCorrect, d)])"

definition page_status_of :: "(string option \<times> bool \<times> 'd) list \<Rightarrow> page_status" where
  "page_status_of results =
    (if list_all (\<lambda>(h, isCorrect, d). isCorrect) results
     then (if results = [] then NORECORD else VERIFIED)
     else INVALID)"

section \<open>The signed message of the builder (src/notarize.js, lines 95 to 99)\<close>

text \<open>\<^verbatim>\<open>doSign\<close>: the wallet's \<^verbatim>\<open>signMessage\<close> is a parameter.\<close>

definition doSign :: "(string \<Rightarrow> string) \<Rightarrow> string \<Rightarrow> string" where
  "doSign signMessage verificationHash =
    signMessage (''I sign this revision: ['' @ verificationHash @ '']'')"

section \<open>The builder (src/notarize.js): values, objects and the environment\<close>

text \<open>JavaScript values as the builder meets them in revisions and in parsed JSON. A
  number is kept as the text JavaScript prints for it; no arithmetic is done on it. An
  object is the list of its properties in \<^verbatim>\<open>Object.keys\<close> order; the keys in play (hashes,
  field names, file names) are not array indices, so this is the order of insertion.\<close>

datatype jsval =
    JUndefined
  | JNull
  | JBool bool
  | JNum string
  | JStr string
  | JArr "jsval list"
  | JObj "(string \<times> jsval) list"

type_synonym js_object = "(string \<times> jsval) list"

text \<open>Reading a property, assigning one (\<^verbatim>\<open>o[k] = v\<close> keeps the place of a key that
  exists and appends a new one), deleting one, and the spread \<^verbatim>\<open>{...a, ...b}\<close>.\<close>

definition obj_get :: "js_object \<Rightarrow> string \<Rightarrow> jsval" where
  "obj_get obj k = (case map_of obj k of None \<Rightarrow> JUndefined | Some v \<Rightarrow> v)"

definition obj_set :: "string \<Rightarrow> 'v \<Rightarrow> (string \<times> 'v) list \<Rightarrow> (string \<times> 'v) list" where
  "obj_set k v obj = AList.update k v obj"

definition obj_delete :: "string \<Rightarrow> (string \<times> 'v) list \<Rightarrow> (string \<times> 'v) list" where
  "obj_delete k obj = AList.delete k obj"

definition spread :: "js_object \<Rightarrow> js_object \<Rightarrow> js_object" where
  "spread a b = fold (\<lambda>(k, v) obj. obj_set k v obj) b a"

fun truthy :: "jsval \<Rightarrow> bool" where
  "truthy JUndefined = False"
| "truthy JNull = False"
| "truthy (JBool b) = b"
| "truthy (JNum n) = (n \<noteq> ''0'' \<and> n \<noteq> ''NaN'')"
| "truthy (JStr s) = (s \<noteq> '''')"
| "truthy (JArr xs) = True"
| "truthy (JObj ps) = True"

text \<open>The string a value becomes when it is used as a property key or in a template
  (\<^verbatim>\<open>ToString\<close>): an array joins its elements with commas, printing nothing for
  \<^verbatim>\<open>null\<close> and \<^verbatim>\<open>undefined\<close>.\<close>

fun join_comma :: "string list \<Rightarrow> string" where
  "join_comma [] = ''''"
| "join_comma [s] = s"
| "join_comma (s # t # rest) = s @ '','' @ join_comma (t # rest)"

fun to_string :: "jsval \<Rightarrow> string" where
  "to_string JUndefined = ''undefined''"
| "to_string JNull = ''null''"
| "to_string (JBool b) = (if b then ''true'' else ''false'')"
| "to_string (JNum n) = n"
| "to_string (JStr s) = s"
| "to_string (JArr xs) =
     join_comma (map (\<lambda>x. if x = JUndefined \<or> x = JNull then '''' else to_string x) xs)"
| "to_string (JObj ps) = ''[object Object]''"

text \<open>\<^verbatim>\<open>s.split(",")\<close> and \<^verbatim>\<open>s.endsWith(t)\<close>.\<close>

fun split_comma :: "string \<Rightarrow> string list" where
  "split_comma [] = ['''']"
| "split_comma (c # cs) =
    (if c = CHR '','' then '''' # split_comma cs
     else (case split_comma cs of
             [] \<Rightarrow> [[c]]
           | w # ws \<Rightarrow> (c # w) # ws))"

definition endsWith :: "string \<Rightarrow> string \<Rightarrow> bool" where
  "endsWith s t = (length t \<le> length s \<and> drop (length s - length t) s = t)"

text \<open>The aqua object of one chain, and the \<^verbatim>\<open>AquaTree\<close> instance around it.
  \<^verbatim>\<open>this.lastRevisionHash\<close> is \<open>None\<close> when it is \<^verbatim>\<open>undefined\<close> (a file read without
  revisions), \<^verbatim>\<open>this.aquaFilename\<close> when the tree was not read from a file.\<close>

record aqua_object =
  aqua_revisions :: "(string \<times> js_object) list"
  file_index :: "(string \<times> jsval) list"

record aqua_tree =
  this_aquaObject :: aqua_object
  this_lastRevisionHash :: "string option"
  this_aquaFilename :: "string option"

text \<open>How a run of the builder ends when it does not complete: \<^verbatim>\<open>process.exit(1)\<close> after
  the message for content that is already notarized, after an invalid link, or after
  another message; or an exception that nothing catches.\<close>

datatype builder_error =
    DUPLICATE_CONTENT string
  | INVALID_LINK string
  | Exit string
  | ReferenceError string
  | UncaughtTypeError string
  | UncaughtError string

datatype aqua_file = Absent | Unparsable | Parsed aqua_object

text \<open>The command line of the run, and everything the builder takes from outside: the
  file system, the random nonce, the clock, the wallets and DID keys, the witness
  backends, \<^verbatim>\<open>JSON.stringify\<close> and \<^verbatim>\<open>JSON.parse\<close>, the package merkletreejs (a tree
  built with \<^verbatim>\<open>main.getHashSum\<close> and \<^verbatim>\<open>duplicateOdd: false\<close>), and \<^verbatim>\<open>main.dict2Leaves\<close>
  of the \<^verbatim>\<open>./index.js\<close> that \<^verbatim>\<open>notarize.js\<close> imports, which is not among the sources.\<close>

record builder_env =
  filename :: string
  form_file_name :: "string option"
  linkURIs :: "string option"
  enableContent :: bool
  signMethod :: "string option"
  witnessMethod :: "string option"
  network :: "string option"
  witness_platform_type :: "string option"
  readFileSync :: "string \<Rightarrow> byte list option"
  readAquaFile :: "string \<Rightarrow> aqua_file"
  prepareNonce :: string
  now_seconds :: string
  bufferToString :: "byte list \<Rightarrow> string"
  JSON_parse :: "byte list \<Rightarrow> js_object option"
  JSON_stringify :: "js_object \<Rightarrow> string"
  dict2Leaves :: "js_object \<Rightarrow> string list"
  getHexRoot :: "jsval list \<Rightarrow> string"
  getHexProof :: "jsval list \<Rightarrow> jsval \<Rightarrow> string list"
  doSignMetamask :: "string \<Rightarrow> builder_error + (jsval \<times> jsval \<times> jsval)"
  cliWallet :: "builder_error + ((string \<Rightarrow> string) \<times> string \<times> string)"
  didSign :: "string \<Rightarrow> builder_error + (jsval \<times> jsval)"
  witnessNostr :: "string \<Rightarrow> builder_error + (string \<times> string \<times> string)"
  witnessTsa :: "string \<Rightarrow> string \<Rightarrow> builder_error + (string \<times> string \<times> string)"
  witnessEthCli :: "string \<Rightarrow> string \<Rightarrow> string \<Rightarrow> builder_error + (string \<times> string)"
  witnessEthMetamask :: "string \<Rightarrow> string \<Rightarrow> string \<Rightarrow> builder_error + (string \<times> string)"

text \<open>Modelled from the spec: \<^verbatim>\<open>main.getHashSum\<close> applied to the buffer of a file, and
  \<^verbatim>\<open>main.getFileHashSum\<close>, both of the \<^verbatim>\<open>./index.js\<close> that \<^verbatim>\<open>notarize.js\<close> imports and that is
  not among the sources. \<open>For files on disk, SHA3-512 is computed over the raw bytes\<close>; a
  buffer is never the empty string, so the convention for the empty string does not
  apply to it.\<close>

definition getHashSum_buffer :: "byte list \<Rightarrow> string" where
  "getHashSum_buffer fileContent = sha3_512_bytes fileContent"

definition getFileHashSum :: "builder_env \<Rightarrow> string \<Rightarrow> builder_error + string" where
  "getFileHashSum env uri =
    (case readFileSync env uri of
       None \<Rightarrow> Inl (UncaughtError (''ENOENT: no such file or directory, open '' @ uri))
     | Some fileContent \<Rightarrow> Inr (getHashSum_buffer fileContent))"

section \<open>The builder: signatures and witnesses (src/notarize.js, lines 302 to 423 and 446 to 493)\<close>

definition js_of_hash :: "string option \<Rightarrow> jsval" where
  "js_of_hash h = (case h of None \<Rightarrow> JUndefined | Some s \<Rightarrow> JStr s)"

definition prepareSignature :: "builder_env \<Rightarrow> jsval \<Rightarrow> builder_error + js_object" where
  "prepareSignature env previousVerificationHash =
    (let result = (\<lambda>sig walletAddress publicKey signature_type.
           [(''signature'', sig),
            (''signature_public_key'', publicKey),
            (''signature_wallet_address'', walletAddress),
            (''signature_type'', signature_type)])
     in if signMethod env = Some ''metamask''
        then (case doSignMetamask env (to_string previousVerificationHash) of
                Inl e \<Rightarrow> Inl e
              | Inr (sig, walletAddress, publicKey) \<Rightarrow>
                  Inr (result sig walletAddress publicKey (JStr ''ethereum:eip-191'')))
        else if signMethod env = Some ''cli''
        then (case cliWallet env of
                Inl e \<Rightarrow> Inl (Exit ''Failed to read mnemonic'')
              | Inr (signMessage, walletAddress, publicKey) \<Rightarrow>
                  Inr (result (JStr (doSign signMessage (to_string previousVerificationHash)))
                         (JStr walletAddress) (JStr publicKey) (JStr ''ethereum:eip-191'')))
        else if signMethod env = Some ''did''
        then (case didSign env (to_string previousVerificationHash) of
                Inl e \<Rightarrow> Inl e
              | Inr (jws, key) \<Rightarrow> Inr (result jws key key (JStr ''did:key'')))
        else Inr (result JUndefined JUndefined JUndefined JUndefined))"

definition prepareWitness :: "builder_env \<Rightarrow> jsval \<Rightarrow> builder_error + js_object" where
  "prepareWitness env verificationHash =
    (case witnessMethod env of
       None \<Rightarrow> Inl (Exit ''Witness method must be specified'')
     | Some m \<Rightarrow>
         (let merkle_root = verificationHash;
              witness = (\<lambda>witnessTimestamp witness_network smart_contract_address
                           transactionHash publisher.
                [(''witness_merkle_root'', merkle_root),
                 (''witness_timestamp'', JNum witnessTimestamp),
                 (''witness_network'', JStr witness_network),
                 (''witness_smart_contract_address'', JStr smart_contract_address),
                 (''witness_transaction_hash'', JStr transactionHash),
                 (''witness_sender_account_address'', JStr publisher),
                 (''witness_merkle_proof'', JArr [verificationHash])])
          in if m = ''nostr''
             then (case witnessNostr env (to_string merkle_root) of
                     Inl e \<Rightarrow> Inl e
                   | Inr (transactionHash, publisher, witnessTimestamp) \<Rightarrow>
                       Inr (witness witnessTimestamp ''nostr'' ''N/A'' transactionHash publisher))
             else if m = ''tsa''
             then (let tsaUrl = ''http://timestamp.digicert.com''
                   in case witnessTsa env (to_string merkle_root) tsaUrl of
                        Inl e \<Rightarrow> Inl e
                      | Inr (transactionHash, publisher, witnessTimestamp) \<Rightarrow>
                          Inr (witness witnessTimestamp ''TSA_RFC3161'' tsaUrl transactionHash
                                 publisher))
             else if m = ''eth''
             then (let useNetwork = (if network env = Some ''mainnet'' then ''mainnet''
                                     else ''sepolia'');
                       smart_contract_address = ''0x45f59310ADD88E6d23ca58A0Fa7A55BEE6d2a611''
                   in case (if witness_platform_type env = Some ''cli''
                            then witnessEthCli env (to_string merkle_root) useNetwork
                                   smart_contract_address
                            else witnessEthMetamask env (to_string merkle_root) useNetwork
                                   smart_contract_address) of
                        Inl e \<Rightarrow> Inl e
                      | Inr (transactionHash, publisher) \<Rightarrow>
                          Inr (witness (now_seconds env) useNetwork smart_contract_address
                                 transactionHash publisher))
             else Inl (Exit (''Unknown witness method: '' @ m))))"

section \<open>The builder: the chain store (src/notarize.js, lines 425 to 427 and 495 to 626)\<close>

definition createNewAquaObject :: aqua_object where
  "createNewAquaObject = \<lparr>aqua_revisions = [], file_index = []\<rparr>"

text \<open>The last key of \<^verbatim>\<open>Object.keys(revisions)\<close>, \<^verbatim>\<open>undefined\<close> without revisions.\<close>

definition lastKey :: "aqua_object \<Rightarrow> jsval" where
  "lastKey aquaObject =
    (case aqua_revisions aquaObject of
       [] \<Rightarrow> JUndefined
     | r # rs \<Rightarrow> JStr (fst (last (r # rs))))"

definition getLatestVH :: "builder_env \<Rightarrow> string \<Rightarrow> builder_error + jsval" where
  "getLatestVH env uri =
    (case readAquaFile env uri of
       Absent \<Rightarrow> Inl (UncaughtError (''ENOENT: no such file or directory, open '' @ uri))
     | Unparsable \<Rightarrow> Inl (UncaughtError ''SyntaxError: Unexpected token in JSON'')
     | Parsed aquaObject \<Rightarrow> Inr (lastKey aquaObject))"

definition checkFileHashAlreadyNotarized :: "string \<Rightarrow> aqua_object \<Rightarrow> builder_error + unit" where
  "checkFileHashAlreadyNotarized fileHash aquaObject =
    (case find (\<lambda>revision. truthy (obj_get revision ''file_hash'') \<and>
                            obj_get revision ''file_hash'' = JStr fileHash)
            (map snd (aqua_revisions aquaObject)) of
       Some existingRevision \<Rightarrow> Inl (DUPLICATE_CONTENT fileHash)
     | None \<Rightarrow> Inr ())"

text \<open>\<^verbatim>\<open>maybeUpdateFileIndex\<close> (lines 526 to 550). A file or form revision is indexed under
  its verification hash.\<close>

definition maybeUpdateFileIndex ::
  "builder_env \<Rightarrow> aqua_object \<Rightarrow> string \<times> js_object \<Rightarrow> string \<Rightarrow> builder_error + aqua_object" where
  "maybeUpdateFileIndex env aquaObject verificationData revisionType =
    (if revisionType = ''form''
     then Inr (aquaObject\<lparr>file_index :=
                 obj_set (fst verificationData)
                   (case form_file_name env of None \<Rightarrow> JUndefined | Some f \<Rightarrow> JStr f)
                   (file_index aquaObject)\<rparr>)
     else if revisionType = ''file''
     then Inr (aquaObject\<lparr>file_index :=
                 obj_set (fst verificationData) (JStr (filename env)) (file_index aquaObject)\<rparr>)
     else if revisionType = ''link''
     then
       (case linkURIs env of
          None \<Rightarrow> Inl (UncaughtTypeError ''Cannot read properties of undefined (reading split)'')
        | Some uris \<Rightarrow>
            (let linkURIsArray = split_comma uris
             in case obj_get (snd verificationData) ''link_verification_hashes'' of
                  JArr linkVHs \<Rightarrow>
                    Inr (aquaObject\<lparr>file_index :=
                           fold (\<lambda>(idx, vh) index.
                                   obj_set (to_string vh)
                                     (JStr (if idx < length linkURIsArray
                                            then linkURIsArray ! idx else ''undefined''))
                                     index)
                             (enumerate 0 linkVHs) (file_index aquaObject)\<rparr>)
                | _ \<Rightarrow> Inl (UncaughtTypeError ''linkVHs.entries is not a function'')))
     else Inr aquaObject)"

text \<open>\<^verbatim>\<open>removeLastRevision\<close> (lines 598 to 626). The \<^verbatim>\<open>switch\<close> handles \<^verbatim>\<open>file\<close> (it deletes
  the index entry under the revision's \<^verbatim>\<open>file_hash\<close>) and \<^verbatim>\<open>link\<close>. The statement after it,
  \<^verbatim>\<open>delete this.aquaObject.revisions[lastRevisionHash]\<close>, reads an identifier that neither
  the method nor the module declares (the field is \<^verbatim>\<open>this.lastRevisionHash\<close>): it throws a
  \<^verbatim>\<open>ReferenceError\<close>, so that the rest of the method (deleting the revision, then
  unlinking or rewriting the file) is never reached. The result is the tree as the
  exception leaves it in memory, and the exception.\<close>

definition removeLastRevision :: "aqua_tree \<Rightarrow> aqua_tree \<times> builder_error" where
  "removeLastRevision t =
    (case map_of (aqua_revisions (this_aquaObject t)) (to_string (js_of_hash (this_lastRevisionHash t))) of
       None \<Rightarrow>
         (t, UncaughtTypeError ''Cannot read properties of undefined (reading revision_type)'')
     | Some lastRevision \<Rightarrow>
         (case (if obj_get lastRevision ''revision_type'' = JStr ''file''
                then Inr (obj_delete (to_string (obj_get lastRevision ''file_hash''))
                            (file_index (this_aquaObject t)))
                else if obj_get lastRevision ''revision_type'' = JStr ''link''
                then (case obj_get lastRevision ''link_verification_hashes'' of
                        JArr vhs \<Rightarrow>
                          Inr (fold (\<lambda>vh index. obj_delete (to_string vh) index) vhs
                                 (file_index (this_aquaObject t)))
                      | JStr s \<Rightarrow>
                          Inr (fold (\<lambda>c index. obj_delete [c] index) s
                                 (file_index (this_aquaObject t)))
                      | _ \<Rightarrow>
                          Inl (UncaughtTypeError
                                 ''lastRevision.link_verification_hashes is not iterable''))
                else Inr (file_index (this_aquaObject t))) of
            Inl e \<Rightarrow> (t, e)
          | Inr index \<Rightarrow>
              (t\<lparr>this_aquaObject := (this_aquaObject t)\<lparr>file_index := index\<rparr>\<rparr>,
               ReferenceError ''lastRevisionHash is not defined'')))"

section \<open>The builder: a new revision (src/notarize.js, lines 628 to 763)\<close>

text \<open>\<^verbatim>\<open>xs.map(f)\<close> for an \<open>f\<close> that may throw or exit: the first failure ends it.\<close>

fun collect :: "('a \<Rightarrow> 'e + 'b) \<Rightarrow> 'a list \<Rightarrow> 'e + 'b list" where
  "collect f [] = Inr []"
| "collect f (x # xs) =
    (case f x of
       Inl e \<Rightarrow> Inl e
     | Inr y \<Rightarrow> (case collect f xs of Inl e \<Rightarrow> Inl e | Inr ys \<Rightarrow> Inr (y # ys)))"

definition validRevisionTypes :: "string list" where
  "validRevisionTypes = [''file'', ''signature'', ''witness'', ''form'', ''link'']"

text \<open>The \<^verbatim>\<open>switch\<close> over the revision type (lines 643 to 734): the fields that the type
  adds to \<open>verificationData\<close>, or the way the run ends.\<close>

definition revisionFields ::
  "builder_env \<Rightarrow> aqua_tree \<Rightarrow> string \<Rightarrow> js_object \<Rightarrow> builder_error + js_object" where
  "revisionFields env t revisionType verificationData =
    (if revisionType = ''file''
     then
       (case readFileSync env (filename env) of
          None \<Rightarrow>
            Inl (UncaughtError (''ENOENT: no such file or directory, open '' @ filename env))
        | Some fileContent \<Rightarrow>
            (let fileHash = getHashSum_buffer fileContent
             in case checkFileHashAlreadyNotarized fileHash (this_aquaObject t) of
                  Inl e \<Rightarrow> Inl e
                | Inr _ \<Rightarrow>
                    (let withContent =
                           (if enableContent env
                            then obj_set ''content'' (JStr (bufferToString env fileContent))
                                   verificationData
                            else verificationData)
                     in Inr (obj_set ''file_nonce'' (JStr (prepareNonce env))
                               (obj_set ''file_hash'' (JStr fileHash) withContent)))))
     else if revisionType = ''signature''
     then
       (case prepareSignature env (js_of_hash (this_lastRevisionHash t)) of
          Inl e \<Rightarrow> Inl e
        | Inr sigData \<Rightarrow> Inr (spread verificationData sigData))
     else if revisionType = ''witness''
     then
       (case prepareWitness env (js_of_hash (this_lastRevisionHash t)) of
          Inl e \<Rightarrow> Inl e
        | Inr witness \<Rightarrow> Inr (spread verificationData witness))
     else if revisionType = ''form''
     then
       (case (case form_file_name env of None \<Rightarrow> None | Some f \<Rightarrow> readFileSync env f) of
          None \<Rightarrow>
            Inl (Exit ''Error: Unable to read the file. Ensure the file exists and is accessible.'')
        | Some form_data \<Rightarrow>
            (let fileHash = getHashSum_buffer form_data
             in case checkFileHashAlreadyNotarized fileHash (this_aquaObject t) of
                  Inl e \<Rightarrow> Inl e
                | Inr _ \<Rightarrow>
                    (let withHash =
                           obj_set ''file_nonce'' (JStr (prepareNonce env))
                             (obj_set ''file_hash'' (JStr fileHash) verificationData)
                     in case JSON_parse env form_data of
                          None \<Rightarrow> Inl (Exit ''Error: The file does not contain valid JSON data.'')
                        | Some form_data_json \<Rightarrow>
                            (let form_data_sorted_with_prefix =
                                   fold (\<lambda>key obj.
                                           obj_set (''forms_'' @ key) (obj_get form_data_json key)
                                             obj)
                                     (map fst form_data_json) []
                             in Inr (spread withHash form_data_sorted_with_prefix)))))
     else if revisionType = ''link''
     then
       (case linkURIs env of
          None \<Rightarrow> Inl (UncaughtTypeError ''Cannot read properties of undefined (reading split)'')
        | Some uris \<Rightarrow>
            (let linkURIsArray = split_comma uris
             in case find (\<lambda>uri. endsWith uri ''.aqua.json'') linkURIsArray of
                  Some uri \<Rightarrow> Inl (INVALID_LINK (uri @ '' is an Aqua file hence not applicable''))
                | None \<Rightarrow>
                    (case collect (getLatestVH env) (map (\<lambda>e. e @ ''.aqua.json'') linkURIsArray) of
                       Inl e \<Rightarrow> Inl e
                     | Inr linkVHs \<Rightarrow>
                         (case collect (getFileHashSum env) linkURIsArray of
                            Inl e \<Rightarrow> Inl e
                          | Inr linkFileHashes \<Rightarrow>
                              (case find (\<lambda>fh. fh \<in> fst ` set (file_index (this_aquaObject t)))
                                      linkFileHashes of
                                 Some fh \<Rightarrow> Inl (INVALID_LINK (fh @ '' detected in file index''))
                               | None \<Rightarrow>
                                   Inr (spread verificationData
                                     [(''link_type'', JStr ''aqua''),
                                      (''link_require_indepth_verification'', JBool True),
                                      (''link_verification_hashes'', JArr linkVHs),
                                      (''link_file_hashes'', JArr (map JStr linkFileHashes))]))))))
     else Inr verificationData)"

text \<open>The verification hash and the stored revision (lines 736 to 757): scalar, or the
  root of the Merkle tree over the leaves, which are stored with the revision.\<close>

definition hashRevision :: "builder_env \<Rightarrow> bool \<Rightarrow> js_object \<Rightarrow> string \<times> js_object" where
  "hashRevision env enableScalar verificationData =
    (if enableScalar
     then (''0x'' @ getHashSum (JSON_stringify env verificationData), verificationData)
     else
       (let leaves = dict2Leaves env verificationData
        in (getHexRoot env (map JStr leaves),
            obj_set ''leaves'' (JArr (map JStr leaves)) verificationData)))"

text \<open>\<^verbatim>\<open>createNewRevision\<close>: the tree after the call, and its result (the verification hash
  with the revision) or the way the run ended. Nothing of the tree is assigned before
  line 759.\<close>

definition createNewRevision ::
  "builder_env \<Rightarrow> string \<Rightarrow> string \<Rightarrow> bool \<Rightarrow> aqua_tree \<Rightarrow>
    aqua_tree \<times> (builder_error + string \<times> js_object)" where
  "createNewRevision env timestamp revisionType enableScalar t =
    (let previousVerificationHash = this_lastRevisionHash t
     in if revisionType \<notin> set validRevisionTypes
        then (t, Inl (Exit (''Invalid revision type: '' @ revisionType)))
        else
          (let verificationData =
                 [(''previous_verification_hash'', js_of_hash previousVerificationHash),
                  (''local_timestamp'', JStr timestamp),
                  (''revision_type'', JStr revisionType)]
           in case revisionFields env t revisionType verificationData of
                Inl e \<Rightarrow> (t, Inl e)
              | Inr extended \<Rightarrow>
                  (let out = hashRevision env enableScalar extended;
                       stored = (this_aquaObject t)
                         \<lparr>aqua_revisions :=
                            obj_set (fst out) (snd out) (aqua_revisions (this_aquaObject t))\<rparr>
                   in case maybeUpdateFileIndex env stored out revisionType of
                        Inl e \<Rightarrow>
                          (t\<lparr>this_lastRevisionHash := Some (fst out), this_aquaObject := stored\<rparr>,
                           Inl e)
                      | Inr indexed \<Rightarrow>
                          (t\<lparr>this_lastRevisionHash := Some (fst out), this_aquaObject := indexed\<rparr>,
                           Inr out))))"

section \<open>The builder: the witness over several chains (src/notarize.js, lines 191 to 300)\<close>

definition readChains :: "builder_env \<Rightarrow> string list \<Rightarrow> builder_error + aqua_object list" where
  "readChains env all_aqua_files =
    collect (\<lambda>file.
        case readAquaFile env (file @ ''.aqua.json'') of
          Absent \<Rightarrow> Inl (Exit (''File does not exist: '' @ file @ ''.aqua.json''))
        | Unparsable \<Rightarrow> Inl (Exit (''Error reading '' @ file @ ''.aqua.json''))
        | Parsed aquaObject \<Rightarrow> Inr aquaObject)
      all_aqua_files"

text \<open>The body of the second loop (lines 247 to 298) for one chain: the revision and its
  verification hash, and the aqua object with the revision stored.\<close>

definition witnessRevision ::
  "builder_env \<Rightarrow> string \<Rightarrow> string \<Rightarrow> js_object \<Rightarrow> aqua_object \<Rightarrow> string \<times> js_object" where
  "witnessRevision env timestamp revisionType witnessResult current_file_aqua_object =
    (let latestRevisionKey = lastKey current_file_aqua_object;
         verificationData =
           spread [(''previous_verification_hash'', latestRevisionKey),
                   (''local_timestamp'', JStr timestamp),
                   (''revision_type'', JStr revisionType)]
             witnessResult;
         leaves = dict2Leaves env verificationData
     in (getHexRoot env (map JStr leaves),
         obj_set ''leaves'' (JArr (map JStr leaves)) verificationData))"

definition appendWitnessRevision ::
  "builder_env \<Rightarrow> string \<Rightarrow> string \<Rightarrow> js_object \<Rightarrow> aqua_object \<Rightarrow> builder_error + aqua_object" where
  "appendWitnessRevision env timestamp revisionType witnessResult current_file_aqua_object =
    (let out = witnessRevision env timestamp revisionType witnessResult current_file_aqua_object
     in maybeUpdateFileIndex env
          (current_file_aqua_object
             \<lparr>aqua_revisions :=
                obj_set (fst out) (snd out) (aqua_revisions current_file_aqua_object)\<rparr>)
          out revisionType)"

text \<open>What a run leaves behind: the Merkle proofs it printed (one for each tip), the
  files it wrote, in order, and the way it ended if it did not return \<^verbatim>\<open>true\<close>.\<close>

record multi_witness_run =
  printed_proofs :: "string list list"
  written :: "(string \<times> aqua_object) list"
  ended :: "builder_error option"

fun writeLoop ::
  "builder_env \<Rightarrow> string \<Rightarrow> string \<Rightarrow> js_object \<Rightarrow> (string \<times> aqua_object) list \<Rightarrow>
    (string \<times> aqua_object) list \<Rightarrow> (string \<times> aqua_object) list \<times> builder_error option" where
  "writeLoop env timestamp revisionType witnessResult [] sofar = (sofar, None)"
| "writeLoop env timestamp revisionType witnessResult ((current_file, obj) # rest) sofar =
    (case appendWitnessRevision env timestamp revisionType witnessResult obj of
       Inl e \<Rightarrow> (sofar, Some e)
     | Inr obj' \<Rightarrow>
         writeLoop env timestamp revisionType witnessResult rest
           (sofar @ [(current_file @ ''.aqua.json'', obj')]))"

definition createRevisionWithMultipleAquaChain ::
  "builder_env \<Rightarrow> string \<Rightarrow> string \<Rightarrow> multi_witness_run" where
  "createRevisionWithMultipleAquaChain env timestamp revisionType =
    (if CHR '','' \<notin> set (filename env)
     then \<lparr>printed_proofs = [], written = [],
           ended = Some (Exit ''Multiple files must be separated by commas'')\<rparr>
     else
       (let all_aqua_files = split_comma (filename env)
        in case readChains env all_aqua_files of
             Inl e \<Rightarrow> \<lparr>printed_proofs = [], written = [], ended = Some e\<rparr>
           | Inr all_file_aqua_objects \<Rightarrow>
               (let lastRevionHashes = map lastKey all_file_aqua_objects;
                    merkleRoot = getHexRoot env lastRevionHashes;
                    merkleProofArray = map (getHexProof env lastRevionHashes) lastRevionHashes
                in case prepareWitness env (JStr merkleRoot) of
                     Inl e \<Rightarrow> \<lparr>printed_proofs = merkleProofArray, written = [], ended = Some e\<rparr>
                   | Inr witnessResult \<Rightarrow>
                       (let withProof =
                              obj_set ''witness_merkle_proof'' (JArr lastRevionHashes)
                                witnessResult;
                            (files, e) =
                              writeLoop env timestamp revisionType withProof
                                (zip all_aqua_files all_file_aqua_objects) []
                        in \<lparr>printed_proofs = merkleProofArray, written = files, ended = e\<rparr>))))"

chapter \<open>Concrete inputs\<close>

text \<open>A Merkle branch of two nodes over the revision hash \<open>ab\<close>, consistent from node to
  node, inside a witness whose Merkle root is another value.\<close>

definition sample_branch :: "merkle_node list" where
  "sample_branch =
    [\<lparr>left_leaf = ''ab'', right_leaf = ''cd'', successor = sha3_512 ''abcd''\<rparr>,
     \<lparr>left_leaf = sha3_512 ''abcd'', right_leaf = ''ef'',
      successor = sha3_512 (sha3_512 ''abcd'' @ ''ef'')\<rparr>]"

definition sample_witness :: witness_data where
  "sample_witness =
    \<lparr>domain_snapshot_genesis_hash = ''01'', merkle_root = ''00'',
     witness_network = ''sepolia'', witness_event_transaction_hash = ''0x02'',
     witness_event_verification_hash = sha3_512 ''0100'',
     structured_merkle_proof = sample_branch\<rparr>"

text \<open>An expected root, and the input data of a transaction that carries the selector and
  the same root in capitals.\<close>

definition sample_root :: string where
  "sample_root = ''a69f73cca23a9ac5c8b567dc185a756e97c982164fe25859e0d1dcc1475c80a615b2123af1f5f94c11e3e9402c3ac558f500199d95b6d3e301758586281dcd26''"

definition sample_input_data :: string where
  "sample_input_data = ''0x9cef4ea1A69F73CCA23A9AC5C8B567DC185A756E97C982164FE25859E0D1DCC1475C80A615B2123AF1F5F94C11E3E9402C3AC558F500199D95B6D3E301758586281DCD26''"

text \<open>A v1.2 revision without a file hash slot, signed, with no previous verification
  hash (a genesis revision), and a second revision that follows it.\<close>

definition sample_genesis :: revision where
  "sample_genesis =
    \<lparr>rev_content = \<lparr>content = [(''main'', ''hello'')], content_hash = '''', file_data = None\<rparr>,
     rev_metadata =
       \<lparr>domain_id = ''d1'', time_stamp = ''20240101000000'',
        previous_verification_hash = None, merge_hash = None, metadata_hash = ''''\<rparr>,
     rev_signature = Some \<lparr>signature = ''0x00'', wallet_address = ''0x01''\<rparr>,
     rev_witness = None\<rparr>"

definition sample_second :: revision where
  "sample_second =
    \<lparr>rev_content = \<lparr>content = [(''main'', ''world'')], content_hash = '''', file_data = None\<rparr>,
     rev_metadata =
       \<lparr>domain_id = ''d1'', time_stamp = ''20240102000000'',
        previous_verification_hash = Some ''aa'', merge_hash = None, metadata_hash = ''''\<rparr>,
     rev_signature = None,
     rev_witness = None\<rparr>"

definition sample_chain :: hash_chain where
  "sample_chain = \<lparr>revisions = [(''aa'', sample_genesis), (''bb'', sample_second)]\<rparr>"

definition sample_page_data :: page_data where
  "sample_page_data = \<lparr>pages = [sample_chain]\<rparr>"

text \<open>The values of ethers on the inputs of one scenario, computed outside: the account
  \<open>0xf39F...2266\<close> signs, as \<open>doSign\<close> does, the message
  \<open>I sign this revision: [P]\<close> for the previous verification hash \<open>P\<close> below.
  \<^verbatim>\<open>hashMessage\<close> is the EIP-191 digest of the two messages in play;
  \<^verbatim>\<open>recoverAddress\<close> recovers the signer from the digest that was signed and another
  address from the other digest. Inputs outside the scenario are left without a value
  (the empty digest; an exception of the recovery).\<close>

definition sample_previous_hash :: string where
  "sample_previous_hash = ''e6da59e7349fb06a3de52ab3a2b383090f80d45ea8489d76b231d580ccf01fb112e509dedd5cc09bead4aa54455ca4c66cd46abe35c061325802d5df12b2a55d''"

definition sample_signature :: revision_signature where
  "sample_signature =
    \<lparr>signature = ''0x0b46d3c070278b1de4a017d4d3fa80425dc48922627675bc9bbb30c391da2fb52efe42fb049cfc22e35b43428da4718eba3fb88bc97a6e5c38f26fe24fbc6cc41b'',
     wallet_address = ''0xf39fd6e51aad88f6f4ce6ab8827279cfffb92266''\<rparr>"

definition sample_hashMessage :: "string \<Rightarrow> string" where
  "sample_hashMessage m =
    (if m = ''I sign this revision: ['' @ sample_previous_hash @ '']''
     then ''0xb98d4488c25c3fa8d1f6b3cf41d15859a5c8c72978018dc17143fccf80aee028''
     else if m = ''I sign the following page verification_hash: [0x'' @ sample_previous_hash @ '']''
     then ''0x5d5863ff706027fa7d5036fadd090f516a6a65420173b3e43938092f30bbb771''
     else '''')"

definition sample_recoverAddress :: "string \<Rightarrow> string \<Rightarrow> string + string" where
  "sample_recoverAddress digest sig =
    (if sig = signature sample_signature \<and>
        digest = ''0xb98d4488c25c3fa8d1f6b3cf41d15859a5c8c72978018dc17143fccf80aee028''
     then Inr ''0xf39Fd6e51aad88F6F4ce6aB8827279cffFb92266''
     else if sig = signature sample_signature \<and>
        digest = ''0x5d5863ff706027fa7d5036fadd090f516a6a65420173b3e43938092f30bbb771''
     then Inr ''0x4e4C42d09Aea4A10e5653186e14bBE5e5b91b984''
     else Inl ''invalid signature'')"

definition sample_externals :: externals where
  "sample_externals =
    \<lparr>hashMessage = sample_hashMessage,
     recoverAddress = sample_recoverAddress,
     getTransaction = (\<lambda>rpcUrl txHash. TxNotFound),
     base64_decode = (\<lambda>b64. [])\<rparr>"

text \<open>A MediaWiki server with a page of two revisions: the verification of the first
  fails (the server answers its \<^verbatim>\<open>verify_page\<close> request with an error), the second is in
  order.\<close>

definition sample_server :: "string wiki_server" where
  "sample_server =
    \<lparr>fetch_all_revs = (\<lambda>url. HttpOk (RevIds [1, 2])),
     fetch_wikitext = (\<lambda>server revid. HttpOk (Some ''text'')),
     verifyRevision_index =
       (\<lambda>apiURL revid prevRevId previousVerificationHash contentHash isHtml dvmp.
          if revid = 1 then Inr (None, False, ''HTTP 500: Internal Server Error'')
          else Inr (Some ''bb'', True, ''verified''))\<rparr>"

text \<open>The same page on a server that rejects the first revision and answers the request
  for the wikitext of the second with an error.\<close>

definition sample_broken_server :: "string wiki_server" where
  "sample_broken_server =
    \<lparr>fetch_all_revs = (\<lambda>url. HttpOk (RevIds [1, 2])),
     fetch_wikitext =
       (\<lambda>server revid. if revid = 1 then HttpOk (Some ''text'')
          else HttpError ''HTTP 500: Internal Server Error''),
     verifyRevision_index =
       (\<lambda>apiURL revid prevRevId previousVerificationHash contentHash isHtml dvmp.
          Inr (None, False, ''verification hash does not match''))\<rparr>"

section \<open>Stand-ins for the libraries of the builder\<close>

text \<open>The concrete inputs below need values for the library functions the model takes
  as parameters. These follow the libraries: \<^verbatim>\<open>JSON.stringify\<close> without indentation (on
  the values of \<^typ>\<open>jsval\<close>), and the tree of merkletreejs as the builder configures it
  (leaves taken as they are, hexadecimal strings read as bytes, SHA3-512 of the two
  concatenated children, an odd node moved up unchanged; the proof of a leaf is the
  list of its siblings from the bottom up). No theorem about the model depends on
  them.\<close>

definition json_char :: "char \<Rightarrow> string" where
  "json_char c =
    (let n = of_char c :: nat
     in if n = 34 then [CHR 0x5C, CHR 0x22]
        else if n = 92 then [CHR 0x5C, CHR 0x5C]
        else if n = 8 then [CHR 0x5C, CHR ''b'']
        else if n = 9 then [CHR 0x5C, CHR ''t'']
        else if n = 10 then [CHR 0x5C, CHR ''n'']
        else if n = 12 then [CHR 0x5C, CHR ''f'']
        else if n = 13 then [CHR 0x5C, CHR ''r'']
        else if n < 32 then [CHR 0x5C, CHR ''u'', CHR ''0'', CHR ''0''] @ hex_of_byte (of_nat n)
        else [c])"

definition json_quote :: "string \<Rightarrow> string" where
  "json_quote s = [CHR 0x22] @ concat (map json_char s) @ [CHR 0x22]"

fun json_of :: "jsval \<Rightarrow> string" where
  "json_of JUndefined = ''null''"
| "json_of JNull = ''null''"
| "json_of (JBool b) = (if b then ''true'' else ''false'')"
| "json_of (JNum n) = (if n \<in> {''NaN'', ''Infinity'', ''-Infinity''} then ''null'' else n)"
| "json_of (JStr s) = json_quote s"
| "json_of (JArr xs) = ''['' @ join_comma (map json_of xs) @ '']''"
| "json_of (JObj ps) =
     ''{'' @ join_comma (map (\<lambda>(k, v). json_quote k @ '':'' @ json_of v)
                          (filter (\<lambda>(k, v). v \<noteq> JUndefined) ps)) @ ''}''"

definition stringify :: "js_object \<Rightarrow> string" where
  "stringify obj = json_of (JObj obj)"

text \<open>Modelled from the spec: \<^verbatim>\<open>main.dict2Leaves\<close>, which is not among the sources. \<open>Given
  an attribute map M, produce the ordered sequence [sha3_512(k_i || stringify(v_i))]
  where key order is insertion order of the map\<close>; \<open>strings as-is; numbers as decimal;
  booleans as "true"/"false"; nested structures as canonical JSON\<close>.\<close>

definition stringify_value :: "jsval \<Rightarrow> string" where
  "stringify_value v =
    (case v of
       JStr s \<Rightarrow> s
     | JNum n \<Rightarrow> n
     | JBool b \<Rightarrow> (if b then ''true'' else ''false'')
     | _ \<Rightarrow> json_of v)"

definition leaves_of_dict :: "js_object \<Rightarrow> string list" where
  "leaves_of_dict obj = map (\<lambda>(k, v). sha3_512 (k @ stringify_value v)) obj"

definition hex_value :: "char \<Rightarrow> nat option" where
  "hex_value c =
    (let n = of_char c :: nat
     in if 48 \<le> n \<and> n \<le> 57 then Some (n - 48)
        else if 97 \<le> n \<and> n \<le> 102 then Some (n - 87)
        else if 65 \<le> n \<and> n \<le> 70 then Some (n - 55)
        else None)"

fun hex_decode :: "string \<Rightarrow> byte list" where
  "hex_decode (a # b # rest) =
    (case (hex_value a, hex_value b) of
       (Some x, Some y) \<Rightarrow> of_nat (16 * x + y) # hex_decode rest
     | _ \<Rightarrow> [])"
| "hex_decode _ = []"

definition bufferify :: "jsval \<Rightarrow> byte list" where
  "bufferify v =
    (case v of
       JStr s \<Rightarrow>
         (let digits = (if startsWith s ''0x'' then drop 2 s else s)
          in if list_all (\<lambda>c. hex_value c \<noteq> None) digits then hex_decode digits else utf8 s)
     | _ \<Rightarrow> [])"

definition hashFn :: "byte list \<Rightarrow> byte list" where
  "hashFn b = hex_decode (sha3_512_bytes b)"

fun pair_layer :: "byte list list \<Rightarrow> byte list list" where
  "pair_layer (l # r # rest) = hashFn (l @ r) # pair_layer rest"
| "pair_layer nodes = nodes"

function merkle_top :: "byte list list \<Rightarrow> byte list" where
  "merkle_top nodes =
    (if length nodes \<le> 1 then concat (take 1 nodes) else merkle_top (pair_layer nodes))"
  by pat_completeness auto
termination
proof (relation "measure length")
  fix nodes :: "byte list list"
  assume many: "\<not> length nodes \<le> 1"
  have shorter: "length (pair_layer ns) \<le> length ns" for ns
    by (induction ns rule: pair_layer.induct) auto
  from many obtain l r rest where "nodes = l # r # rest"
    by (cases nodes rule: pair_layer.cases) auto
  with shorter [of rest] show "(pair_layer nodes, nodes) \<in> measure length"
    by simp
qed simp

function merkle_siblings :: "nat \<Rightarrow> byte list list \<Rightarrow> byte list list" where
  "merkle_siblings i nodes =
    (if length nodes \<le> 1 then []
     else (let j = (if odd i then i - 1 else i + 1)
           in (if j < length nodes then [nodes ! j] else []) @
              merkle_siblings (i div 2) (pair_layer nodes)))"
  by pat_completeness auto
termination
proof (relation "measure (\<lambda>(i, nodes). length nodes)")
  fix i :: nat and nodes :: "byte list list" and j :: nat
  assume many: "\<not> length nodes \<le> 1"
  have shorter: "length (pair_layer ns) \<le> length ns" for ns
    by (induction ns rule: pair_layer.induct) auto
  from many obtain l r rest where "nodes = l # r # rest"
    by (cases nodes rule: pair_layer.cases) auto
  with shorter [of rest]
  show "((i div 2, pair_layer nodes), (i, nodes)) \<in> measure (\<lambda>(i, nodes). length nodes)"
    by simp
qed simp

definition hex_of_bytes :: "byte list \<Rightarrow> string" where
  "hex_of_bytes bs = concat (map hex_of_byte bs)"

definition tree_getHexRoot :: "jsval list \<Rightarrow> string" where
  "tree_getHexRoot leaves = ''0x'' @ hex_of_bytes (merkle_top (map bufferify leaves))"

definition tree_getHexProof :: "jsval list \<Rightarrow> jsval \<Rightarrow> string list" where
  "tree_getHexProof leaves leaf =
    (let buffers = map bufferify leaves;
         hits = filter (\<lambda>i. buffers ! i = bufferify leaf) [0..<length buffers]
     in if hits = [] then []
        else map (\<lambda>b. ''0x'' @ hex_of_bytes b) (merkle_siblings (last hits) buffers))"

section \<open>Inputs of the builder\<close>

text \<open>Two files, and for each the chain the builder has made of it: one \<^verbatim>\<open>file\<close>
  revision, indexed under its verification hash.\<close>

definition hello_bytes :: "byte list" where
  "hello_bytes = [0x68, 0x65, 0x6C, 0x6C, 0x6F, 0x0A]"

definition notes_bytes :: "byte list" where
  "notes_bytes = [0x6E, 0x6F, 0x74, 0x65, 0x73, 0x0A]"

definition hello_tip :: string where
  "hello_tip = ''0x259e31e8ffc38c1ecf9743afd2a61103cbcdf1bf849442d191ff8ad36ac56aa523f902a4b5fea0c9edd9f518dcb3b5b927549a0261264b352d8756429a54b9ba''"

definition notes_tip :: string where
  "notes_tip = ''0x661e78d63e5265e20f0b1a6f38be1926bfe9e2fa1745a73b2b5eb090c292bf47200a9dd3a4c44bfd4377c6b3d8f2bd742a7822ce9d67b07f11ca32aae1939aa1''"

definition hello_chain :: aqua_object where
  "hello_chain =
    \<lparr>aqua_revisions =
       [(hello_tip,
         [(''previous_verification_hash'', JStr ''''),
          (''local_timestamp'', JStr ''20240101000000''),
          (''revision_type'', JStr ''file''),
          (''file_hash'', JStr (getHashSum_buffer hello_bytes)),
          (''file_nonce'', JStr ''jZ3cS0s5oL2vYbD8j0m1TqkW4nXh6uRrE9aPfGyC7Kw'')])],
     file_index = [(hello_tip, JStr ''hello.txt'')]\<rparr>"

definition notes_chain :: aqua_object where
  "notes_chain =
    \<lparr>aqua_revisions =
       [(notes_tip,
         [(''previous_verification_hash'', JStr ''''),
          (''local_timestamp'', JStr ''20240101000000''),
          (''revision_type'', JStr ''file''),
          (''file_hash'', JStr (getHashSum_buffer notes_bytes)),
          (''file_nonce'', JStr ''Qm5xT1b8Hn3LwVd0pRk7sYc2UeJ9oZf4AgN6iMqXyB0'')])],
     file_index = [(notes_tip, JStr ''notes.txt'')]\<rparr>"

text \<open>The tree read from \<^verbatim>\<open>hello.txt.aqua.json\<close>, and the tree of the constructor before
  its first revision.\<close>

definition hello_tree :: aqua_tree where
  "hello_tree =
    \<lparr>this_aquaObject = hello_chain, this_lastRevisionHash = Some hello_tip,
     this_aquaFilename = Some ''hello.txt.aqua.json''\<rparr>"

definition new_tree :: aqua_tree where
  "new_tree =
    \<lparr>this_aquaObject = createNewAquaObject, this_lastRevisionHash = Some '''',
     this_aquaFilename = None\<rparr>"

text \<open>A run \<^verbatim>\<open>notarize.js hello.txt\<close>: the two files and their chains on disk, no wallet
  and no witness backend but MetaMask on Ethereum, which answers with a transaction
  hash and the sender.\<close>

definition sample_builder :: builder_env where
  "sample_builder =
    \<lparr>filename = ''hello.txt'',
     form_file_name = None,
     linkURIs = None,
     enableContent = False,
     signMethod = None,
     witnessMethod = None,
     network = None,
     witness_platform_type = None,
     readFileSync =
       (\<lambda>path. if path = ''hello.txt'' then Some hello_bytes
               else if path = ''notes.txt'' then Some notes_bytes else None),
     readAquaFile =
       (\<lambda>path. if path = ''hello.txt.aqua.json'' then Parsed hello_chain
               else if path = ''notes.txt.aqua.json'' then Parsed notes_chain else Absent),
     prepareNonce = ''x3Vb9Kq0Zt7Lr2Jc8Nw4Hs6Fd1Gy5Mp0Ua3Ee7Io9Yk'',
     now_seconds = ''1704067200'',
     bufferToString = map (\<lambda>b. char_of (unat b)),
     JSON_parse = (\<lambda>bytes. None),
     JSON_stringify = stringify,
     dict2Leaves = leaves_of_dict,
     getHexRoot = tree_getHexRoot,
     getHexProof = tree_getHexProof,
     doSignMetamask = (\<lambda>message. Inl (Exit ''Signature timeout: No response from MetaMask'')),
     cliWallet = Inl (UncaughtError ''mnemonic.txt not found''),
     didSign = (\<lambda>message. Inl (Exit ''DID key is required.'')),
     witnessNostr = (\<lambda>root. Inl (UncaughtError ''no relay'')),
     witnessTsa = (\<lambda>root url. Inl (UncaughtError ''no timestamp authority'')),
     witnessEthCli = (\<lambda>root net contract. Inl (Exit ''Unable to Estimate gas fee'')),
     witnessEthMetamask =
       (\<lambda>root net contract.
          Inr (''0x8b7c2e4f1a6d9035c7e2b4a8f0d3169e5c2b7a4d8f1e6039b5c2d7a4e9f10368'',
               ''0xf39fd6e51aad88f6f4ce6ab8827279cfffb92266''))\<rparr>"

text \<open>A run \<^verbatim>\<open>notarize.js --witness eth hello.txt,notes.txt\<close> in the same surroundings.\<close>

definition sample_multi_builder :: builder_env where
  "sample_multi_builder =
    sample_builder\<lparr>filename := ''hello.txt,notes.txt'', witnessMethod := Some ''eth''\<rparr>"

chapter \<open>Properties\<close>

section \<open>SHA3-512: the shape of a digest\<close>

lemma length_sha3_512_bytes: "length (sha3_512_bytes m) = 128"
  by (simp add: sha3_512_bytes_def Let_def length_concat comp_def hex_of_byte_def
      sum_list_triv)

lemma length_sha3_512: "length (sha3_512 s) = 128"
  by (simp add: sha3_512_def length_sha3_512_bytes)

lemma sha3_512_not_empty: "sha3_512 s \<noteq> ''''"
  using length_sha3_512 [of s] by auto

lemma hex_digit_lower: "is_lower_hex (hex_digit n)"
proof -
  have "n mod 16 < length ''0123456789abcdef''" by simp
  then have "''0123456789abcdef'' ! (n mod 16) \<in> set ''0123456789abcdef''"
    by (rule nth_mem)
  then show ?thesis by (simp only: is_lower_hex_def hex_digit_def)
qed

lemma sha3_512_bytes_lower_hex: "list_all is_lower_hex (sha3_512_bytes m)"
  by (simp add: sha3_512_bytes_def Let_def list_all_iff hex_of_byte_def hex_digit_lower)

lemma sha3_512_lower_hex: "list_all is_lower_hex (sha3_512 s)"
  by (simp add: sha3_512_def sha3_512_bytes_lower_hex)

lemma sha3_512_neq_short: "length s \<noteq> 128 \<Longrightarrow> sha3_512 t \<noteq> s"
  using length_sha3_512 [of t] by auto

section \<open>getHashSum\<close>

text \<open>
  Claim C8, as amended. \<open>getHashSum\<close> of \<^verbatim>\<open>src/index.js\<close> and \<^verbatim>\<open>src/dist/index.js\<close> maps
  the empty string to the empty string and every non-empty input to its SHA3-512 digest,
  128 lowercase hexadecimal digits. \<open>getHashSum\<close> of \<^verbatim>\<open>src/verifier.js\<close> has no case for
  the empty string: it returns the digest of every input.
\<close>

theorem getHashSum_digest:
  "getHashSum '''' = '''' \<and>
   (input \<noteq> '''' \<longrightarrow> getHashSum input = sha3_512 input) \<and>
   getHashSum_verifier input = sha3_512 input \<and>
   length (sha3_512 input) = 128 \<and>
   list_all is_lower_hex (sha3_512 input)"
  by (simp add: getHashSum_def getHashSum_verifier_def length_sha3_512 sha3_512_lower_hex)

text \<open>Witness for C8: the input \<open>abc\<close>.\<close>

theorem getHashSum_digest_witness:
  "getHashSum '''' = '''' \<and>
   getHashSum ''abc'' = sha3_512 ''abc'' \<and>
   getHashSum_verifier ''abc'' = sha3_512 ''abc'' \<and>
   length (sha3_512 ''abc'') = 128 \<and>
   list_all is_lower_hex (sha3_512 ''abc'')"
  using getHashSum_digest [of "''abc''"] by simp

text \<open>Counterexample to C8 as stated: \<open>getHashSum\<close> of \<^verbatim>\<open>src/verifier.js\<close> does not map the
  empty string to the empty string.\<close>

theorem getHashSum_verifier_empty_counterexample:
  "getHashSum_verifier '''' \<noteq> '''' \<and> length (getHashSum_verifier '''') = 128"
  by (simp add: getHashSum_verifier_def sha3_512_not_empty length_sha3_512)

section \<open>The Ethereum transaction check\<close>

lemma rpcUrl_of_not_empty: "rpcUrl_of net alchemyKey \<noteq> ''''"
  by (auto simp add: rpcUrl_of_def networkRpcMap_def split: option.splits if_splits)

text \<open>
  Claim C6. When the provider returns a transaction, input data that does not start with
  the selector \<open>0x9cef4ea1\<close> is rejected whatever follows; input data that starts with it
  is accepted exactly when its next 128 characters equal the expected root, both in lower
  case.
\<close>

theorem checkTransaction_selector:
  assumes "rpc (rpcUrl_of net alchemyKey) txHash = TxData inputData"
  shows "(\<not> startsWith inputData ''0x9cef4ea1'' \<longrightarrow>
           checkTransaction rpc net txHash expected alchemyKey =
             \<lparr>verificationHashMatches = False,
              message = ''Transaction data does not contain expected function selector'',
              successful = False\<rparr>) \<and>
         (startsWith inputData ''0x9cef4ea1'' \<longrightarrow>
           successful (checkTransaction rpc net txHash expected alchemyKey) =
             (toLowerCase (take 128 (drop 10 inputData)) = toLowerCase expected))"
  using assms
  by (simp add: checkTransaction_def Let_def rpcUrl_of_not_empty functionSelector_def slice_def)

text \<open>Witness for C6: a transaction without the selector in front of the right root is
  rejected; a transaction with the selector and the root in capitals is accepted.\<close>

theorem checkTransaction_selector_witness:
  "checkTransaction (\<lambda>rpcUrl txHash. TxData (''0x00000000'' @ sample_root)) ''sepolia'' ''0x01''
      sample_root ''key'' =
     \<lparr>verificationHashMatches = False,
      message = ''Transaction data does not contain expected function selector'',
      successful = False\<rparr> \<and>
   successful (checkTransaction (\<lambda>rpcUrl txHash. TxData sample_input_data) ''sepolia'' ''0x01''
      sample_root ''key'')"
proof -
  have no_selector: "\<not> startsWith (''0x00000000'' @ sample_root) ''0x9cef4ea1''"
    by (simp add: startsWith_def)
  have selector: "startsWith sample_input_data ''0x9cef4ea1''"
    by (simp add: startsWith_def sample_input_data_def)
  have same: "toLowerCase (take 128 (drop 10 sample_input_data)) = toLowerCase sample_root"
    by (simp add: sample_input_data_def sample_root_def toLowerCase_def lower_char_def
        char_of_def bit_Suc_0_iff)
  show ?thesis
    using checkTransaction_selector
      [of "\<lambda>rpcUrl txHash. TxData (''0x00000000'' @ sample_root)" "''sepolia''" "''key''"
        "''0x01''" "''0x00000000'' @ sample_root" sample_root]
      checkTransaction_selector
      [of "\<lambda>rpcUrl txHash. TxData sample_input_data" "''sepolia''" "''key''" "''0x01''"
        sample_input_data sample_root]
      no_selector selector same
    by simp
qed

section \<open>Traversal of a witness Merkle proof\<close>

lemma promote_or_hash_empty: "promote_or_hash l r = '''' \<longleftrightarrow> l = '''' \<and> r = ''''"
  by (simp add: promote_or_hash_def sha3_512_not_empty)

lemma hash_pair_empty: "hash_pair l r = '''' \<longleftrightarrow> l = '''' \<and> r = ''''"
  by (simp add: hash_pair_def sha3_512_not_empty)

lemma dist_successor:
  "(if l = '''' then r else if r = '''' then l else getHashSum (l @ r)) = promote_or_hash l r"
  by (simp add: promote_or_hash_def getHashSum_def)

lemma index_successor: "getHashSum (l @ r) = hash_pair l r"
  by (simp add: hash_pair_def getHashSum_def)

text \<open>The test \<^verbatim>\<open>if (prevSuccessor)\<close> falls back to the revision's hash when the previous
  successor is empty. A successor is empty only when both leaves are, and then the hash
  that was expected among them is empty too: the fallback never changes the outcome.\<close>

lemma merkleLoop_Some:
  "p \<noteq> '''' \<or> vh = '''' \<Longrightarrow> merkleLoop (Some p) vh br = proof_chain promote_or_hash p br"
proof (induction br arbitrary: p)
  case Nil
  show ?case by simp
next
  case (Cons node rest)
  have expected: "(if p \<noteq> '''' then p else vh) = p"
    using Cons.prems by auto
  show ?case
  proof (cases "(p = left_leaf node \<or> p = right_leaf node) \<and>
      successor node = promote_or_hash (left_leaf node) (right_leaf node)")
    case False
    then show ?thesis
      by (auto simp add: expected dist_successor Let_def)
  next
    case True
    have "successor node \<noteq> '''' \<or> vh = ''''"
      using True Cons.prems promote_or_hash_empty [of "left_leaf node" "right_leaf node"]
      by auto
    then have "merkleLoop (Some (successor node)) vh rest =
        proof_chain promote_or_hash (successor node) rest"
      by (rule Cons.IH)
    with True show ?thesis
      by (auto simp add: expected dist_successor Let_def)
  qed
qed

lemma merkleLoop_None: "merkleLoop None vh br = proof_chain promote_or_hash vh br"
proof (cases br)
  case Nil
  then show ?thesis by simp
next
  case (Cons node rest)
  show ?thesis
  proof (cases "(vh = left_leaf node \<or> vh = right_leaf node) \<and>
      successor node = promote_or_hash (left_leaf node) (right_leaf node)")
    case False
    then show ?thesis
      by (auto simp add: Cons dist_successor Let_def)
  next
    case True
    have "successor node \<noteq> '''' \<or> vh = ''''"
      using True promote_or_hash_empty [of "left_leaf node" "right_leaf node"]
      by auto
    then have "merkleLoop (Some (successor node)) vh rest =
        proof_chain promote_or_hash (successor node) rest"
      by (rule merkleLoop_Some)
    with True show ?thesis
      by (auto simp add: Cons dist_successor Let_def)
  qed
qed

lemma merkleLoop_index_Some:
  "p \<noteq> '''' \<or> vh = '''' \<Longrightarrow>
    merkleLoop_index (Some p) vh br = proof_chain hash_pair p br"
proof (induction br arbitrary: p)
  case Nil
  show ?case by simp
next
  case (Cons node rest)
  have expected: "(if p \<noteq> '''' then p else vh) = p"
    using Cons.prems by auto
  show ?case
  proof (cases "(p = left_leaf node \<or> p = right_leaf node) \<and>
      successor node = hash_pair (left_leaf node) (right_leaf node)")
    case False
    then show ?thesis
      by (auto simp add: expected index_successor Let_def)
  next
    case True
    have "successor node \<noteq> '''' \<or> vh = ''''"
      using True Cons.prems hash_pair_empty [of "left_leaf node" "right_leaf node"]
      by auto
    then have "merkleLoop_index (Some (successor node)) vh rest =
        proof_chain hash_pair (successor node) rest"
      by (rule Cons.IH)
    with True show ?thesis
      by (auto simp add: expected index_successor Let_def)
  qed
qed

lemma merkleLoop_index_None: "merkleLoop_index None vh br = proof_chain hash_pair vh br"
proof (cases br)
  case Nil
  then show ?thesis by simp
next
  case (Cons node rest)
  show ?thesis
  proof (cases "(vh = left_leaf node \<or> vh = right_leaf node) \<and>
      successor node = hash_pair (left_leaf node) (right_leaf node)")
    case False
    then show ?thesis
      by (auto simp add: Cons index_successor Let_def)
  next
    case True
    have "successor node \<noteq> '''' \<or> vh = ''''"
      using True hash_pair_empty [of "left_leaf node" "right_leaf node"]
      by auto
    then have "merkleLoop_index (Some (successor node)) vh rest =
        proof_chain hash_pair (successor node) rest"
      by (rule merkleLoop_index_Some)
    with True show ?thesis
      by (auto simp add: Cons index_successor Let_def)
  qed
qed

text \<open>
  Claim C1, as amended. \<open>verifyMerkleIntegrity\<close> accepts a branch exactly when, starting
  from the revision's hash, each node's pair of leaves contains the previous successor
  (at the first node, the revision's hash) and each node's successor is the one computed
  from its leaves: in \<^verbatim>\<open>src/dist/index.js\<close> the SHA3-512 digest of \<open>left || right\<close>, or the
  other leaf unchanged when one leaf is empty, and the branch is not empty; in
  \<^verbatim>\<open>src/index.js\<close> the digest of \<open>left || right\<close> throughout (empty for two empty
  leaves). Neither function is given the witness Merkle root: the final successor is
  compared with nothing.
\<close>

theorem verifyMerkleIntegrity_traversal:
  "verifyMerkleIntegrity merkleBranch verificationHash =
     (merkleBranch \<noteq> [] \<and> proof_chain promote_or_hash verificationHash merkleBranch) \<and>
   verifyMerkleIntegrity_index merkleBranch verificationHash =
     proof_chain hash_pair verificationHash merkleBranch"
  by (simp add: verifyMerkleIntegrity_def verifyMerkleIntegrity_index_def merkleLoop_None
      merkleLoop_index_None)

text \<open>Counterexample to C1 as stated: a branch of two nodes that both functions accept,
  and with it the witness check of the v1.2 verifier, although its final successor is
  not the witness Merkle root.\<close>

theorem merkle_root_unchecked_counterexample:
  "1 < length (structured_merkle_proof sample_witness) \<and>
   verifyMerkleIntegrity (structured_merkle_proof sample_witness) ''ab'' \<and>
   verifyMerkleIntegrity_index (structured_merkle_proof sample_witness) ''ab'' \<and>
   successor (last (structured_merkle_proof sample_witness)) \<noteq> merkle_root sample_witness \<and>
   verifyWitnessUtil (\<lambda>rpcUrl txHash. TxNotFound) sample_witness ''ab'' True ''key'' =
     (True, ''Merkle proof is OK'')"
  by (simp add: sample_witness_def sample_branch_def verifyMerkleIntegrity_def
      verifyMerkleIntegrity_index_def verifyWitnessUtil_def getHashSum_def Let_def
      sha3_512_not_empty sha3_512_neq_short)

section \<open>The two timestamp readers\<close>

text \<open>
  Claim C10. For page data whose list of pages is not empty and whose first page has at
  least one revision, \<open>getTimestampDirect\<close> and \<open>getTimestampSafe\<close> return the same
  timestamp, that of the first revision of the first page; for an empty list of pages
  \<open>getTimestampDirect\<close> returns \<^verbatim>\<open>undefined\<close>.
\<close>

theorem getTimestamp_agree:
  "(pages pageData \<noteq> [] \<and> revisions (hd (pages pageData)) \<noteq> [] \<longrightarrow>
      getTimestampDirect pageData = getTimestampSafe pageData \<and>
      getTimestampDirect pageData =
        Inr (Some (time_stamp (rev_metadata (snd (hd (revisions (hd (pages pageData))))))))) \<and>
   (pages pageData = [] \<longrightarrow> getTimestampDirect pageData = Inr None)"
proof (cases "pages pageData")
  case Nil
  then show ?thesis by (simp add: getTimestampDirect_def)
next
  case (Cons firstPage rest)
  show ?thesis
  proof (cases "revisions firstPage")
    case Nil
    then show ?thesis using Cons by simp
  next
    case (Cons entry entries)
    obtain k r where entry: "entry = (k, r)" by (cases entry)
    show ?thesis
      using \<open>pages pageData = firstPage # rest\<close> Cons entry
      by (simp add: getTimestampDirect_def getTimestampSafe_def)
  qed
qed

text \<open>Witness for C10: a page with two revisions, and the empty list of pages.\<close>

theorem getTimestamp_agree_witness:
  "getTimestampDirect sample_page_data = getTimestampSafe sample_page_data \<and>
   getTimestampDirect sample_page_data = Inr (Some ''20240101000000'') \<and>
   getTimestampDirect \<lparr>pages = []\<rparr> = Inr None"
proof -
  have nonempty: "pages sample_page_data \<noteq> [] \<and> revisions (hd (pages sample_page_data)) \<noteq> []"
    by (simp add: sample_page_data_def sample_chain_def)
  have first: "time_stamp (rev_metadata (snd (hd (revisions (hd (pages sample_page_data)))))) =
      ''20240101000000''"
    by (simp add: sample_page_data_def sample_chain_def sample_genesis_def)
  have agree: "getTimestampDirect sample_page_data = getTimestampSafe sample_page_data \<and>
      getTimestampDirect sample_page_data =
        Inr (Some (time_stamp (rev_metadata (snd (hd (revisions (hd (pages sample_page_data))))))))"
    using getTimestamp_agree [of sample_page_data] nonempty by blast
  have none: "getTimestampDirect \<lparr>pages = []\<rparr> = Inr None"
    using getTimestamp_agree [of "\<lparr>pages = []\<rparr>"] by simp
  show ?thesis
    by (metis agree none first)
qed

section \<open>Signature verification\<close>

lemma allSuccessfulLoop_all:
  "allSuccessfulLoop vs = list_all (\<lambda>v. status v = MISSING \<or> status_successful v) vs"
proof (induction vs)
  case Nil
  show ?case by simp
next
  case (Cons v vs)
  then show ?case by (cases "status v") auto
qed

lemma verifyRevision_signature:
  "signature_verification (verifyRevision ext revision alchemyKey) =
    (case rev_signature revision of
       None \<Rightarrow> defaultResultStatus
     | Some s \<Rightarrow>
         available
           (fst (verifySignatureUtil ext s
              (case previous_verification_hash (rev_metadata revision) of
                 None \<Rightarrow> '''' | Some h \<Rightarrow> h)))
           (snd (verifySignatureUtil ext s
              (case previous_verification_hash (rev_metadata revision) of
                 None \<Rightarrow> '''' | Some h \<Rightarrow> h))))"
  by (simp add: verifyRevision_def Let_def split: prod.split option.split)

lemma verifyRevision_successful:
  "revision_successful (verifyRevision ext revision alchemyKey) =
    allSuccessfulLoop
      [file_verification (verifyRevision ext revision alchemyKey),
       content_verification (verifyRevision ext revision alchemyKey),
       witness_verification (verifyRevision ext revision alchemyKey),
       signature_verification (verifyRevision ext revision alchemyKey),
       metadata_verification (verifyRevision ext revision alchemyKey)]"
  by (simp add: verifyRevision_def Let_def split: prod.split)

text \<open>
  Claim C9. Whatever the signature and whatever the libraries would answer,
  \<open>verifySignatureUtil\<close> on the empty verification hash returns unsuccessful with the
  message \<open>Verification hash must not be empty\<close>: the result does not depend on
  \<^verbatim>\<open>recoverAddress\<close>, which is not reached. So a signed revision whose previous verification
  hash is \<^verbatim>\<open>null\<close> or empty (a genesis revision) has this signature sub-result and fails.
\<close>

theorem empty_hash_signature:
  "verifySignatureUtil ext sig '''' = (False, ''Verification hash must not be empty'') \<and>
   (rev_signature revision = Some sig \<and>
    (previous_verification_hash (rev_metadata revision) = None \<or>
     previous_verification_hash (rev_metadata revision) = Some '''') \<longrightarrow>
    signature_verification (verifyRevision ext revision alchemyKey) =
      \<lparr>status = AVAILABLE, status_successful = False,
       status_message = ''Verification hash must not be empty''\<rparr> \<and>
    \<not> revision_successful (verifyRevision ext revision alchemyKey))"
proof -
  have util: "verifySignatureUtil ext sig '''' = (False, ''Verification hash must not be empty'')"
    by (simp add: verifySignatureUtil_def)
  have "signature_verification (verifyRevision ext revision alchemyKey) =
      \<lparr>status = AVAILABLE, status_successful = False,
       status_message = ''Verification hash must not be empty''\<rparr> \<and>
    \<not> revision_successful (verifyRevision ext revision alchemyKey)"
    if sig: "rev_signature revision = Some sig"
      and prev: "previous_verification_hash (rev_metadata revision) = None \<or>
        previous_verification_hash (rev_metadata revision) = Some ''''"
  proof -
    have empty: "(case previous_verification_hash (rev_metadata revision) of
        None \<Rightarrow> '''' | Some h \<Rightarrow> h) = ''''"
      using prev by auto
    have sub: "signature_verification (verifyRevision ext revision alchemyKey) =
        \<lparr>status = AVAILABLE, status_successful = False,
         status_message = ''Verification hash must not be empty''\<rparr>"
      by (simp add: verifyRevision_signature sig empty util available_def)
    have "\<not> revision_successful (verifyRevision ext revision alchemyKey)"
      by (simp add: verifyRevision_successful [of ext revision alchemyKey] allSuccessfulLoop_all sub)
    with sub show ?thesis by simp
  qed
  with util show ?thesis by blast
qed

text \<open>Witness for C9: a signed genesis revision.\<close>

theorem empty_hash_signature_witness:
  "verifySignatureUtil sample_externals sample_signature '''' =
     (False, ''Verification hash must not be empty'') \<and>
   signature_verification (verifyRevision sample_externals sample_genesis ''key'') =
      \<lparr>status = AVAILABLE, status_successful = False,
       status_message = ''Verification hash must not be empty''\<rparr> \<and>
   \<not> revision_successful (verifyRevision sample_externals sample_genesis ''key'')"
  using empty_hash_signature [of sample_externals sample_signature]
    empty_hash_signature [of sample_externals "\<lparr>signature = ''0x00'', wallet_address = ''0x01''\<rparr>"
      sample_genesis "''key''"]
  by (simp add: sample_genesis_def)

text \<open>
  Claim C5, as amended. In the verifiers under \<^verbatim>\<open>src/\<close> the signature check passes exactly
  when the address recovered from \<open>hashMessage(m')\<close> and the signature equals the wallet
  address, both in lower case, where \<open>m'\<close> is the message
  \<open>I sign the following page verification_hash: [0x\<close> \<open>hash\<close> \<open>]\<close>; an exception of the
  recovery fails the check; \<open>verifySignatureUtil\<close> moreover fails on the empty hash. The
  message \<open>I sign this revision: [\<close> \<open>hash\<close> \<open>]\<close> is the one the builder's \<open>doSign\<close>
  hands to the wallet.
\<close>

theorem verifySignatureUtil_message:
  "fst (verifySignatureUtil ext sig verificationHash) =
     (verificationHash \<noteq> '''' \<and>
      (case recoverAddress ext
              (hashMessage ext
                (''I sign the following page verification_hash: [0x'' @ verificationHash @ '']''))
              (signature sig) of
         Inl e \<Rightarrow> False
       | Inr recovered \<Rightarrow> toLowerCase recovered = toLowerCase (wallet_address sig))) \<and>
   validSignature_index ext verificationHash (signature sig) (wallet_address sig) =
     (case recoverAddress ext
              (hashMessage ext
                (''I sign the following page verification_hash: [0x'' @ verificationHash @ '']''))
              (signature sig) of
         Inl e \<Rightarrow> False
       | Inr recovered \<Rightarrow> toLowerCase recovered = toLowerCase (wallet_address sig)) \<and>
   doSign signMessage verificationHash =
     signMessage (''I sign this revision: ['' @ verificationHash @ '']'')"
  by (simp add: verifySignatureUtil_def validSignature_index_def doSign_def paddedMessage_def
      Let_def split: sum.splits)

text \<open>Counterexample to C5 as stated: a signature of the message
  \<open>I sign this revision: [P]\<close> by the declared wallet, so that the claimed condition holds,
  which \<open>verifySignatureUtil\<close> rejects for the previous verification hash \<open>P\<close>.\<close>

theorem signed_message_counterexample:
  "(case recoverAddress sample_externals
           (hashMessage sample_externals
             (''I sign this revision: ['' @ sample_previous_hash @ '']''))
           (signature sample_signature) of
      Inl e \<Rightarrow> False
    | Inr recovered \<Rightarrow> toLowerCase recovered = toLowerCase (wallet_address sample_signature)) \<and>
   verifySignatureUtil sample_externals sample_signature sample_previous_hash =
     (False, ''Signature is invalid'')"
  by (simp add: verifySignatureUtil_def sample_externals_def sample_hashMessage_def
      sample_recoverAddress_def sample_signature_def sample_previous_hash_def paddedMessage_def
      Let_def toLowerCase_def lower_char_def char_of_def bit_Suc_0_iff)

section \<open>Chain verification\<close>

lemma verifyLoop_run:
  "set hashes \<subseteq> fst ` set revs \<Longrightarrow>
    verifyLoop ext key revs hashes acc =
      Inr (acc @ map (\<lambda>h. verifyRevision ext (the (map_of revs h)) key) hashes)"
proof (induction hashes arbitrary: acc)
  case Nil
  show ?case by simp
next
  case (Cons h hashes)
  from Cons.prems have "h \<in> fst ` set revs" by simp
  then obtain r where r: "map_of revs h = Some r"
    by (metis map_of_eq_None_iff not_Some_eq)
  from Cons.prems have "set hashes \<subseteq> fst ` set revs" by simp
  then show ?case
    by (simp add: r Cons.IH)
qed

lemma lookup_distinct:
  "distinct (map fst revs) \<Longrightarrow>
    map (\<lambda>h. f (the (map_of revs h))) (map fst revs) = map (\<lambda>(h, r). f r) revs"
  by (auto simp add: comp_def)

lemma successLoop_all: "successLoop rs True = list_all revision_successful rs"
  by (induction rs) auto

lemma verifyAquaChain_all:
  assumes "distinct (map fst (revisions aquaChain))"
  shows "verifyAquaChain ext aquaChain alchemyKey =
    Inr \<lparr>chain_successful =
           list_all revision_successful
             (map (\<lambda>(h, r). verifyRevision ext r alchemyKey) (revisions aquaChain)),
         revisionResults =
           map (\<lambda>(h, r). verifyRevision ext r alchemyKey) (revisions aquaChain)\<rparr>"
proof -
  have "verifyLoop ext alchemyKey (revisions aquaChain) (map fst (revisions aquaChain)) [] =
      Inr (map (\<lambda>h. verifyRevision ext (the (map_of (revisions aquaChain) h)) alchemyKey)
        (map fst (revisions aquaChain)))"
    using verifyLoop_run [of "map fst (revisions aquaChain)" "revisions aquaChain" ext alchemyKey "[]"]
    by simp
  also have "map (\<lambda>h. verifyRevision ext (the (map_of (revisions aquaChain) h)) alchemyKey)
        (map fst (revisions aquaChain)) =
      map (\<lambda>(h, r). verifyRevision ext r alchemyKey) (revisions aquaChain)"
    using assms by (rule lookup_distinct)
  finally show ?thesis
    by (simp add: verifyAquaChain_def successLoop_all)
qed

lemma verifyEvery_length:
  "verifyEvery srv server doLog dvmp ids pr pv = Inr rs \<Longrightarrow> length rs = length ids"
proof (induction ids arbitrary: pr pv rs)
  case Nil
  then show ?case by simp
next
  case (Cons revid rest)
  then show ?case
    by (auto split: sum.splits prod.splits)
qed

lemma pageLoop_verifyEvery:
  "verifyEvery srv server doLog dvmp rest pr pv = Inr rs \<Longrightarrow>
    pageLoop srv server doLog dvmp ids rest pr pv n details =
      Inr (PageDetails
        (if list_all (\<lambda>(h, isCorrect, d). isCorrect) rs
         then (if n + length rs = length ids
               then (if n + length rs = 0 then NORECORD else VERIFIED)
               else INVALID)
         else INVALID)
        ids (details @ map (\<lambda>(h, isCorrect, d). d) (upto_first_failure rs)))"
proof (induction rest arbitrary: pr pv n details rs)
  case Nil
  then show ?case by simp
next
  case (Cons revid rest)
  from Cons.prems obtain vh ok d rs' where
    round: "revisionRound srv server doLog dvmp revid pr pv = Inr (vh, ok, d)" and
    every: "verifyEvery srv server doLog dvmp rest (Some revid) vh = Inr rs'" and
    rs: "rs = (vh, ok, d) # rs'"
    by (auto split: sum.splits prod.splits)
  show ?case
  proof (cases ok)
    case True
    with round rs Cons.IH [OF every, of "n + 1" "details @ [d]"] show ?thesis
      by simp
  next
    case False
    with round rs show ?thesis by simp
  qed
qed

lemma pageLoop_stops:
  "verifyEvery srv server doLog dvmp pre pr pv = Inr rs \<Longrightarrow>
    \<not> list_all (\<lambda>(h, isCorrect, d). isCorrect) rs \<Longrightarrow>
    pageLoop srv server doLog dvmp ids (pre @ rest) pr pv n details =
      Inr (PageDetails INVALID ids
        (details @ map (\<lambda>(h, isCorrect, d). d) (upto_first_failure rs)))"
proof (induction pre arbitrary: pr pv n details rs)
  case Nil
  then show ?case by simp
next
  case (Cons revid pre)
  from Cons.prems(1) obtain vh ok d rs' where
    round: "revisionRound srv server doLog dvmp revid pr pv = Inr (vh, ok, d)" and
    every: "verifyEvery srv server doLog dvmp pre (Some revid) vh = Inr rs'" and
    rs: "rs = (vh, ok, d) # rs'"
    by (auto split: sum.splits prod.splits)
  show ?case
  proof (cases ok)
    case True
    with Cons.prems(2) rs have "\<not> list_all (\<lambda>(h, isCorrect, d). isCorrect) rs'"
      by simp
    from Cons.IH [OF every this, of "n + 1" "details @ [d]"] True round rs show ?thesis
      by simp
  next
    case False
    with round rs show ?thesis by simp
  qed
qed

text \<open>
  Claim C3, as amended. \<open>verifyAquaChain\<close> of \<^verbatim>\<open>src/dist/index.js\<close> runs \<open>verifyRevision\<close>
  on every revision in key order, whatever the earlier results, and its flag is the
  conjunction of the revisions' flags. \<open>verifyPage\<close> of \<^verbatim>\<open>src/index.js\<close> stops at the
  first revision that is not correct: once the rounds on a prefix \<open>pre\<close> of the revisions
  have given the results \<open>rs\<close>, one of them not correct, it returns \<open>INVALID\<close> with the
  details up to and including the first failure, whatever the revisions \<open>rest\<close> after
  the prefix are and whatever the server would answer for them. When all the revisions
  are correct it returns \<open>VERIFIED\<close> with all the details, and \<open>NORECORD\<close> for no revision.
\<close>

theorem chain_verification:
  "(distinct (map fst (revisions aquaChain)) \<longrightarrow>
      verifyAquaChain ext aquaChain alchemyKey =
        Inr \<lparr>chain_successful =
               list_all revision_successful
                 (map (\<lambda>(h, r). verifyRevision ext r alchemyKey) (revisions aquaChain)),
             revisionResults =
               map (\<lambda>(h, r). verifyRevision ext r alchemyKey) (revisions aquaChain)\<rparr>) \<and>
   (CHR ''_'' \<notin> set title \<and>
    fetch_all_revs srv (server @ ''/rest.php/data_accounting/v1/get_page_all_revs/'' @ title) =
      HttpOk (RevIds (pre @ rest)) \<and>
    verifyEvery srv server doLog dvmp pre None (Some '''') = Inr rs \<and>
    (rest = [] \<or> \<not> list_all (\<lambda>(h, isCorrect, d). isCorrect) rs) \<longrightarrow>
      verifyPage srv title server verbose doLog dvmp =
        Inr (PageDetails (page_status_of rs) (pre @ rest)
          (map (\<lambda>(h, isCorrect, d). d) (upto_first_failure rs))))"
proof -
  have "verifyPage srv title server verbose doLog dvmp =
        Inr (PageDetails (page_status_of rs) (pre @ rest)
          (map (\<lambda>(h, isCorrect, d). d) (upto_first_failure rs)))"
    if title: "CHR ''_'' \<notin> set title"
      and revs: "fetch_all_revs srv
        (server @ ''/rest.php/data_accounting/v1/get_page_all_revs/'' @ title) =
        HttpOk (RevIds (pre @ rest))"
      and every: "verifyEvery srv server doLog dvmp pre None (Some '''') = Inr rs"
      and reach: "rest = [] \<or> \<not> list_all (\<lambda>(h, isCorrect, d). isCorrect) rs"
  proof -
    have "pageLoop srv server doLog dvmp (pre @ rest) (pre @ rest) None (Some '''') 0 [] =
        Inr (PageDetails (page_status_of rs) (pre @ rest)
          (map (\<lambda>(h, isCorrect, d). d) (upto_first_failure rs)))"
    proof (cases "list_all (\<lambda>(h, isCorrect, d). isCorrect) rs")
      case True
      with reach have none: "rest = []" by simp
      have len: "length rs = length pre"
        using every by (rule verifyEvery_length)
      from pageLoop_verifyEvery [OF every, of pre 0 "[]"] len True none show ?thesis
        by (auto simp add: page_status_of_def)
    next
      case False
      from pageLoop_stops [OF every False, of "pre @ rest" rest 0 "[]"] False show ?thesis
        by (simp add: page_status_of_def)
    qed
    with title revs show ?thesis
      by (simp add: verifyPage_def)
  qed
  with verifyAquaChain_all [of aquaChain ext alchemyKey] show ?thesis by blast
qed

lemma sample_broken_every:
  "verifyEvery sample_broken_server ''http://localhost:9352'' False True [1] None (Some '''') =
    Inr [(None, False, ''verification hash does not match'')]"
  by (simp add: sample_broken_server_def revisionRound_def getHashSum_def)

text \<open>Witness for C3: a chain whose first revision fails, and a page whose first revision
  is not correct on a server where the round of the second revision would throw.\<close>

theorem chain_verification_witness:
  "verifyAquaChain sample_externals sample_chain ''key'' =
     Inr \<lparr>chain_successful = False,
          revisionResults =
            [verifyRevision sample_externals sample_genesis ''key'',
             verifyRevision sample_externals sample_second ''key'']\<rparr> \<and>
   revisionRound sample_broken_server ''http://localhost:9352'' False True 2 (Some 1) None =
     Inl (HttpFailure ''HTTP 500: Internal Server Error'') \<and>
   verifyPage sample_broken_server ''Main Page'' ''http://localhost:9352'' False False True =
     Inr (PageDetails INVALID [1, 2] [''verification hash does not match''])"
proof -
  have keys: "distinct (map fst (revisions sample_chain))"
    by (simp add: sample_chain_def)
  have failed: "\<not> revision_successful (verifyRevision sample_externals sample_genesis ''key'')"
    by (simp add: verifyRevision_def verifyFileUtil_def sample_genesis_def available_def
        Let_def split: prod.split)
  have title: "CHR ''_'' \<notin> set ''Main Page''"
    by simp
  have revs: "fetch_all_revs sample_broken_server
      (''http://localhost:9352'' @ ''/rest.php/data_accounting/v1/get_page_all_revs/'' @
        ''Main Page'') = HttpOk (RevIds ([1] @ [2]))"
    by (simp add: sample_broken_server_def)
  have status: "page_status_of [(None :: string option, False, ''verification hash does not match'')] =
      INVALID"
    by (simp add: page_status_of_def)
  have throws: "revisionRound sample_broken_server ''http://localhost:9352'' False True 2
      (Some 1) None = Inl (HttpFailure ''HTTP 500: Internal Server Error'')"
    by (simp add: sample_broken_server_def revisionRound_def)
  show ?thesis
    using chain_verification [of sample_chain sample_externals "''key''" "''Main Page''"
        sample_broken_server "''http://localhost:9352''" "[1]" "[2]" False True
        "[(None, False, ''verification hash does not match'')]" False]
      keys failed title revs sample_broken_every status throws
    by (simp add: sample_chain_def)
qed

text \<open>Counterexample to C3 as stated: on a page of two revisions whose first one fails,
  \<open>verifyPage\<close> reports one detail: the second revision, which verifying every revision
  reaches, is never verified.\<close>

theorem short_circuit_counterexample:
  "verifyPage sample_server ''Main Page'' ''http://localhost:9352'' False False True =
     Inr (PageDetails INVALID [1, 2] [''HTTP 500: Internal Server Error'']) \<and>
   verifyEvery sample_server ''http://localhost:9352'' False True [1, 2] None (Some '''') =
     Inr [(None, False, ''HTTP 500: Internal Server Error''), (Some ''bb'', True, ''verified'')]"
  by (simp add: verifyPage_def sample_server_def revisionRound_def getHashSum_def)

section \<open>Objects of the builder\<close>

lemma obj_get_set: "obj_get (obj_set k v obj) k' = (if k' = k then v else obj_get obj k')"
  by (simp add: obj_get_def obj_set_def update_conv')

lemma map_of_obj_set: "map_of (obj_set k v obj) k' = (if k' = k then Some v else map_of obj k')"
  by (simp add: obj_set_def update_conv')

lemma map_of_obj_delete: "map_of (obj_delete k obj) k' = (if k' = k then None else map_of obj k')"
  by (simp add: obj_delete_def delete_conv')

lemma keys_obj_set: "fst ` set (obj_set k v obj) = insert k (fst ` set obj)"
  by (simp add: obj_set_def dom_update)

lemma obj_get_spread:
  "k \<notin> fst ` set b \<Longrightarrow> obj_get (spread a b) k = obj_get a k"
proof -
  have "k \<notin> fst ` set b \<Longrightarrow>
      obj_get (fold (\<lambda>(k, v) obj. obj_set k v obj) b a) k = obj_get a k" for a
  proof (induction b arbitrary: a)
    case Nil
    show ?case by simp
  next
    case (Cons p b)
    obtain k' v' where p: "p = (k', v')" by (cases p)
    with Cons.prems have "k \<noteq> k'" and "k \<notin> fst ` set b" by auto
    with Cons.IH [of "obj_set k' v' a"] p show ?case
      by (simp add: obj_get_set)
  qed
  then show "k \<notin> fst ` set b \<Longrightarrow> obj_get (spread a b) k = obj_get a k"
    by (simp add: spread_def)
qed

lemma keys_prefixed:
  "fst ` set (fold (\<lambda>key obj. obj_set (p @ key) (g key) obj) ks acc) =
    (\<lambda>key. p @ key) ` set ks \<union> fst ` set acc"
  by (induction ks arbitrary: acc) (auto simp add: keys_obj_set)

section \<open>Duplicate content\<close>

lemma getHashSum_buffer_length: "length (getHashSum_buffer b) = 128"
  by (simp add: getHashSum_buffer_def length_sha3_512_bytes)

lemma getHashSum_buffer_not_empty: "getHashSum_buffer b \<noteq> ''''"
  using getHashSum_buffer_length [of b] by auto

lemma checkFileHashAlreadyNotarized_duplicate:
  assumes "(h, r) \<in> set (aqua_revisions aquaObject)"
    and "obj_get r ''file_hash'' = JStr fileHash"
    and "fileHash \<noteq> ''''"
  shows "checkFileHashAlreadyNotarized fileHash aquaObject = Inl (DUPLICATE_CONTENT fileHash)"
proof -
  have "r \<in> set (map snd (aqua_revisions aquaObject))"
    using assms(1) by force
  moreover have "truthy (obj_get r ''file_hash'') \<and> obj_get r ''file_hash'' = JStr fileHash"
    using assms(2,3) by simp
  ultimately have "find (\<lambda>revision. truthy (obj_get revision ''file_hash'') \<and>
        obj_get revision ''file_hash'' = JStr fileHash) (map snd (aqua_revisions aquaObject)) \<noteq>
      None"
    unfolding find_None_iff by blast
  then show ?thesis
    by (auto simp add: checkFileHashAlreadyNotarized_def)
qed

text \<open>
  Claim C7. An append of a \<open>file\<close> revision (the file read is \<open>filename\<close>) or of a \<open>form\<close>
  revision (the file read is \<open>form_file_name\<close>) whose file hash is the \<open>file_hash\<close> of a
  revision already in the object ends in \<open>DUPLICATE_CONTENT\<close>, and the tree is the tree
  before the call: its revisions, its file index and its tip.
\<close>

theorem duplicate_content_rejected:
  assumes "(revisionType = ''file'' \<and> readFileSync env (filename env) = Some bytes) \<or>
      (revisionType = ''form'' \<and> form_file_name env = Some f \<and> readFileSync env f = Some bytes)"
    and "(h, r) \<in> set (aqua_revisions (this_aquaObject t))"
    and "obj_get r ''file_hash'' = JStr (getHashSum_buffer bytes)"
  shows "createNewRevision env timestamp revisionType enableScalar t =
    (t, Inl (DUPLICATE_CONTENT (getHashSum_buffer bytes)))"
proof -
  have dup: "checkFileHashAlreadyNotarized (getHashSum_buffer bytes) (this_aquaObject t) =
      Inl (DUPLICATE_CONTENT (getHashSum_buffer bytes))"
    using assms(2,3) getHashSum_buffer_not_empty
    by (rule checkFileHashAlreadyNotarized_duplicate)
  from assms(1) show ?thesis
  proof
    assume "revisionType = ''file'' \<and> readFileSync env (filename env) = Some bytes"
    then show ?thesis
      by (simp add: createNewRevision_def revisionFields_def validRevisionTypes_def dup Let_def)
  next
    assume "revisionType = ''form'' \<and> form_file_name env = Some f \<and>
      readFileSync env f = Some bytes"
    then show ?thesis
      by (simp add: createNewRevision_def revisionFields_def validRevisionTypes_def dup Let_def)
  qed
qed

text \<open>Witness for C7: the file \<^verbatim>\<open>hello.txt\<close> appended a second time to its own chain.\<close>

theorem duplicate_content_rejected_witness:
  "createNewRevision sample_builder ''20240102000000'' ''file'' True hello_tree =
    (hello_tree, Inl (DUPLICATE_CONTENT (getHashSum_buffer hello_bytes)))"
proof -
  have read: "(''file'' = ''file'' \<and>
      readFileSync sample_builder (filename sample_builder) = Some hello_bytes) \<or>
      (''file'' = ''form'' \<and> form_file_name sample_builder = Some ''form.json'' \<and>
       readFileSync sample_builder ''form.json'' = Some hello_bytes)"
    by (simp add: sample_builder_def)
  have stored: "(hello_tip,
      [(''previous_verification_hash'', JStr ''''),
       (''local_timestamp'', JStr ''20240101000000''),
       (''revision_type'', JStr ''file''),
       (''file_hash'', JStr (getHashSum_buffer hello_bytes)),
       (''file_nonce'', JStr ''jZ3cS0s5oL2vYbD8j0m1TqkW4nXh6uRrE9aPfGyC7Kw'')]) \<in>
      set (aqua_revisions (this_aquaObject hello_tree))"
    by (simp add: hello_tree_def hello_chain_def)
  show ?thesis
    by (rule duplicate_content_rejected [OF read stored]) (simp add: obj_get_def)
qed

section \<open>Removing the tip\<close>

lemma createNewRevision_success:
  assumes "createNewRevision env timestamp revisionType enableScalar t = (t1, Inr out)"
  shows "\<exists>extended indexed.
    revisionFields env t revisionType
      [(''previous_verification_hash'', js_of_hash (this_lastRevisionHash t)),
       (''local_timestamp'', JStr timestamp),
       (''revision_type'', JStr revisionType)] = Inr extended \<and>
    out = hashRevision env enableScalar extended \<and>
    maybeUpdateFileIndex env
      ((this_aquaObject t)
         \<lparr>aqua_revisions := obj_set (fst out) (snd out) (aqua_revisions (this_aquaObject t))\<rparr>)
      out revisionType = Inr indexed \<and>
    t1 = t\<lparr>this_lastRevisionHash := Some (fst out), this_aquaObject := indexed\<rparr>"
  using assms
  by (auto simp add: createNewRevision_def Let_def split: if_splits sum.splits)

lemma revisionFields_file:
  assumes "revisionFields env t ''file'' vd = Inr extended"
    and "obj_get vd ''revision_type'' = JStr ''file''"
  shows "obj_get extended ''revision_type'' = JStr ''file'' \<and>
    (\<exists>fileContent. obj_get extended ''file_hash'' = JStr (getHashSum_buffer fileContent))"
  using assms
  by (auto simp add: revisionFields_def Let_def obj_get_set split: option.splits sum.splits)

lemma revisionFields_form:
  assumes "revisionFields env t ''form'' vd = Inr extended"
    and "obj_get vd ''revision_type'' = JStr ''form''"
  shows "obj_get extended ''revision_type'' = JStr ''form''"
proof -
  have "''revision_type'' \<notin> fst ` set
      (fold (\<lambda>key obj. obj_set (''forms_'' @ key) (obj_get json key) obj) ks [])" for json ks
    unfolding keys_prefixed by auto
  then show ?thesis
    using assms
    by (auto simp add: revisionFields_def Let_def obj_get_set obj_get_spread
        split: option.splits sum.splits)
qed

lemma hashRevision_keeps:
  "k \<noteq> ''leaves'' \<Longrightarrow> obj_get (snd (hashRevision env enableScalar vd)) k = obj_get vd k"
  by (simp add: hashRevision_def Let_def obj_get_set)

lemma scalar_hash_not_digest: "fst (hashRevision env True vd) \<noteq> getHashSum_buffer b"
proof
  assume "fst (hashRevision env True vd) = getHashSum_buffer b"
  then have "length (fst (hashRevision env True vd)) = 128"
    by (simp add: getHashSum_buffer_length)
  moreover have "length (fst (hashRevision env True vd)) = 2 \<or>
      length (fst (hashRevision env True vd)) = 130"
    by (simp add: hashRevision_def getHashSum_def length_sha3_512)
  ultimately show False by auto
qed

text \<open>
  Claim C4, what \<open>removeLastRevision\<close> does after an append. After a successful append of a
  \<open>form\<close> revision, or of a \<open>file\<close> revision hashed as a scalar, \<open>removeLastRevision\<close> ends
  in the reference error of line 610, where \<^verbatim>\<open>lastRevisionHash\<close> is read without \<^verbatim>\<open>this\<close>.
  The revisions are those before the call, the appended revision among them, and the file
  index still has the key the append gave it: the \<open>file\<close> case deletes the key
  \<open>file_hash\<close>, the append stored the verification hash, and there is no \<open>form\<close> case.
\<close>

theorem remove_after_append:
  assumes "createNewRevision env timestamp revisionType enableScalar t = (t1, Inr out)"
    and "(revisionType = ''file'' \<and> enableScalar) \<or> revisionType = ''form''"
  shows "snd (removeLastRevision t1) = ReferenceError ''lastRevisionHash is not defined'' \<and>
    aqua_revisions (this_aquaObject (fst (removeLastRevision t1))) =
      aqua_revisions (this_aquaObject t1) \<and>
    map_of (aqua_revisions (this_aquaObject t1)) (fst out) = Some (snd out) \<and>
    fst out \<in> fst ` set (file_index (this_aquaObject (fst (removeLastRevision t1))))"
proof -
  let ?vd = "[(''previous_verification_hash'', js_of_hash (this_lastRevisionHash t)),
       (''local_timestamp'', JStr timestamp),
       (''revision_type'', JStr revisionType)]"
  let ?stored = "(this_aquaObject t)
         \<lparr>aqua_revisions := obj_set (fst out) (snd out) (aqua_revisions (this_aquaObject t))\<rparr>"
  from createNewRevision_success [OF assms(1)] obtain extended indexed where
    fields: "revisionFields env t revisionType ?vd = Inr extended" and
    out: "out = hashRevision env enableScalar extended" and
    index: "maybeUpdateFileIndex env ?stored out revisionType = Inr indexed" and
    t1: "t1 = t\<lparr>this_lastRevisionHash := Some (fst out), this_aquaObject := indexed\<rparr>"
    by blast
  have type0: "obj_get ?vd ''revision_type'' = JStr revisionType"
    by (simp add: obj_get_def)
  from assms(2) index obtain v where
    indexed: "indexed = ?stored\<lparr>file_index := obj_set (fst out) v (file_index ?stored)\<rparr>"
    by (auto simp add: maybeUpdateFileIndex_def)
  have revs: "aqua_revisions (this_aquaObject t1) =
      obj_set (fst out) (snd out) (aqua_revisions (this_aquaObject t))"
    by (simp add: t1 indexed)
  have index1: "file_index (this_aquaObject t1) =
      obj_set (fst out) v (file_index (this_aquaObject t))"
    by (simp add: t1 indexed)
  have present: "map_of (aqua_revisions (this_aquaObject t1)) (fst out) = Some (snd out)"
    by (simp add: revs map_of_obj_set)
  have tip: "this_lastRevisionHash t1 = Some (fst out)"
    by (simp add: t1)
  have last: "map_of (aqua_revisions (this_aquaObject t1))
      (to_string (js_of_hash (this_lastRevisionHash t1))) = Some (snd out)"
    by (simp add: tip present js_of_hash_def)
  from assms(2) show ?thesis
  proof
    assume is_file: "revisionType = ''file'' \<and> enableScalar"
    from revisionFields_file [of env t ?vd extended] fields type0 is_file obtain fileContent where
      type: "obj_get extended ''revision_type'' = JStr ''file''" and
      hash: "obj_get extended ''file_hash'' = JStr (getHashSum_buffer fileContent)"
      by auto
    have type': "obj_get (snd out) ''revision_type'' = JStr ''file''"
      by (simp add: out hashRevision_keeps type)
    have hash': "obj_get (snd out) ''file_hash'' = JStr (getHashSum_buffer fileContent)"
      by (simp add: out hashRevision_keeps hash)
    have other: "fst out \<noteq> getHashSum_buffer fileContent"
      using is_file scalar_hash_not_digest [of env extended fileContent] by (simp add: out)
    have run: "removeLastRevision t1 =
        (t1\<lparr>this_aquaObject := (this_aquaObject t1)
              \<lparr>file_index :=
                 obj_delete (getHashSum_buffer fileContent) (file_index (this_aquaObject t1))\<rparr>\<rparr>,
         ReferenceError ''lastRevisionHash is not defined'')"
      by (simp add: removeLastRevision_def last type' hash')
    have "map_of (obj_delete (getHashSum_buffer fileContent) (file_index (this_aquaObject t1)))
        (fst out) = Some v"
      using other by (simp add: map_of_obj_delete index1 map_of_obj_set)
    then have "fst out \<in> fst ` set
        (obj_delete (getHashSum_buffer fileContent) (file_index (this_aquaObject t1)))"
      by (metis domI dom_map_of_conv_image_fst)
    with run present show ?thesis by simp
  next
    assume is_form: "revisionType = ''form''"
    from revisionFields_form [of env t ?vd extended] fields type0 is_form
    have type: "obj_get extended ''revision_type'' = JStr ''form''"
      by simp
    have type': "obj_get (snd out) ''revision_type'' = JStr ''form''"
      by (simp add: out hashRevision_keeps type)
    have run: "removeLastRevision t1 = (t1, ReferenceError ''lastRevisionHash is not defined'')"
      by (simp add: removeLastRevision_def last type')
    have "fst out \<in> fst ` set (file_index (this_aquaObject t1))"
      by (simp add: index1 keys_obj_set)
    with run present show ?thesis by simp
  qed
qed

text \<open>Witness for C4: the first revision of \<^verbatim>\<open>hello.txt\<close>, appended to the tree of the
  constructor, whose revisions and file index are empty, and both are not empty after the
  removal.\<close>

theorem remove_after_append_witness:
  "snd (removeLastRevision
      (fst (createNewRevision sample_builder ''20240101000000'' ''file'' True new_tree))) =
     ReferenceError ''lastRevisionHash is not defined'' \<and>
   aqua_revisions (this_aquaObject new_tree) = [] \<and>
   file_index (this_aquaObject new_tree) = [] \<and>
   aqua_revisions (this_aquaObject (fst (removeLastRevision
      (fst (createNewRevision sample_builder ''20240101000000'' ''file'' True new_tree))))) \<noteq> [] \<and>
   file_index (this_aquaObject (fst (removeLastRevision
      (fst (createNewRevision sample_builder ''20240101000000'' ''file'' True new_tree))))) \<noteq> []"
proof -
  let ?run = "createNewRevision sample_builder ''20240101000000'' ''file'' True new_tree"
  have "\<exists>out. snd ?run = Inr out"
    by (simp add: createNewRevision_def revisionFields_def maybeUpdateFileIndex_def
        checkFileHashAlreadyNotarized_def validRevisionTypes_def sample_builder_def
        new_tree_def createNewAquaObject_def Let_def)
  then obtain out where "?run = (fst ?run, Inr out)"
    by (metis prod.collapse)
  from remove_after_append [OF this] show ?thesis
    by (auto simp add: new_tree_def createNewAquaObject_def)
qed

section \<open>The witness over several objects\<close>

lemma collect_length: "collect f xs = Inr ys \<Longrightarrow> length ys = length xs"
  by (induction xs arbitrary: ys) (auto split: sum.splits)

lemma maybeUpdateFileIndex_revisions:
  "maybeUpdateFileIndex env obj out revisionType = Inr obj' \<Longrightarrow>
    aqua_revisions obj' = aqua_revisions obj"
  by (auto simp add: maybeUpdateFileIndex_def Let_def split: if_splits option.splits jsval.splits)

lemma appendWitnessRevision_stored:
  assumes "appendWitnessRevision env timestamp revisionType w obj = Inr obj'"
  shows "map_of (aqua_revisions obj') (fst (witnessRevision env timestamp revisionType w obj)) =
    Some (snd (witnessRevision env timestamp revisionType w obj))"
  using assms maybeUpdateFileIndex_revisions
    [of env "obj\<lparr>aqua_revisions :=
        obj_set (fst (witnessRevision env timestamp revisionType w obj))
          (snd (witnessRevision env timestamp revisionType w obj)) (aqua_revisions obj)\<rparr>"
      "witnessRevision env timestamp revisionType w obj" revisionType obj']
  by (simp add: appendWitnessRevision_def Let_def map_of_obj_set)

lemma writeLoop_all:
  "writeLoop env timestamp revisionType w pairs sofar = (files, None) \<Longrightarrow>
    \<exists>rest. files = sofar @ rest \<and>
      list_all2 (\<lambda>obj (path, obj').
          appendWitnessRevision env timestamp revisionType w obj = Inr obj')
        (map snd pairs) rest"
proof (induction pairs arbitrary: sofar)
  case Nil
  then show ?case by simp
next
  case (Cons p pairs)
  obtain current_file obj where p: "p = (current_file, obj)" by (cases p)
  from Cons.prems p obtain obj' where
    one: "appendWitnessRevision env timestamp revisionType w obj = Inr obj'" and
    more: "writeLoop env timestamp revisionType w pairs
      (sofar @ [(current_file @ ''.aqua.json'', obj')]) = (files, None)"
    by (auto split: sum.splits)
  from Cons.IH [OF more] obtain rest where
    "files = (sofar @ [(current_file @ ''.aqua.json'', obj')]) @ rest" and
    "list_all2 (\<lambda>obj (path, obj').
        appendWitnessRevision env timestamp revisionType w obj = Inr obj') (map snd pairs) rest"
    by blast
  with one p show ?case
    by (intro exI [of _ "(current_file @ ''.aqua.json'', obj') # rest"]) simp
qed

lemma prepareWitness_fields:
  assumes "prepareWitness env v = Inr w"
  shows "\<exists>ts net contract tx publisher.
    w = [(''witness_merkle_root'', v),
         (''witness_timestamp'', JNum ts),
         (''witness_network'', JStr net),
         (''witness_smart_contract_address'', JStr contract),
         (''witness_transaction_hash'', JStr tx),
         (''witness_sender_account_address'', JStr publisher),
         (''witness_merkle_proof'', JArr [v])]"
  using assms
  by (auto simp add: prepareWitness_def Let_def split: option.splits if_splits sum.splits)

lemma witnessRevision_fields:
  assumes "prepareWitness env v = Inr w"
  shows "obj_get (snd (witnessRevision env timestamp revisionType
        (obj_set ''witness_merkle_proof'' (JArr tips) w) obj)) ''previous_verification_hash'' =
      lastKey obj \<and>
    obj_get (snd (witnessRevision env timestamp revisionType
        (obj_set ''witness_merkle_proof'' (JArr tips) w) obj)) ''revision_type'' =
      JStr revisionType \<and>
    obj_get (snd (witnessRevision env timestamp revisionType
        (obj_set ''witness_merkle_proof'' (JArr tips) w) obj)) ''witness_merkle_root'' = v \<and>
    obj_get (snd (witnessRevision env timestamp revisionType
        (obj_set ''witness_merkle_proof'' (JArr tips) w) obj)) ''witness_merkle_proof'' =
      JArr tips"
proof -
  from prepareWitness_fields [OF assms] obtain ts net contract tx publisher where
    "w = [(''witness_merkle_root'', v),
         (''witness_timestamp'', JNum ts),
         (''witness_network'', JStr net),
         (''witness_smart_contract_address'', JStr contract),
         (''witness_transaction_hash'', JStr tx),
         (''witness_sender_account_address'', JStr publisher),
         (''witness_merkle_proof'', JArr [v])]"
    by blast
  then show ?thesis
    by (simp add: witnessRevision_def Let_def spread_def obj_get_set obj_set_def obj_get_def)
qed

lemma multi_chain_stored:
  assumes "CHR '','' \<in> set (filename env)"
    and "readChains env (split_comma (filename env)) = Inr objects"
    and "ended (createRevisionWithMultipleAquaChain env timestamp revisionType) = None"
  shows "list_all2
    (\<lambda>chain (path, obj).
       \<exists>vh vd. map_of (aqua_revisions obj) vh = Some vd \<and>
         obj_get vd ''previous_verification_hash'' = lastKey chain \<and>
         obj_get vd ''revision_type'' = JStr revisionType \<and>
         obj_get vd ''witness_merkle_root'' = JStr (getHexRoot env (map lastKey objects)) \<and>
         obj_get vd ''witness_merkle_proof'' = JArr (map lastKey objects))
    objects (written (createRevisionWithMultipleAquaChain env timestamp revisionType))"
proof -
  let ?tips = "map lastKey objects"
  let ?root = "JStr (getHexRoot env ?tips)"
  from assms obtain w where w: "prepareWitness env ?root = Inr w"
    by (auto simp add: createRevisionWithMultipleAquaChain_def Let_def split: sum.splits)
  let ?w = "obj_set ''witness_merkle_proof'' (JArr ?tips) w"
  let ?pairs = "zip (split_comma (filename env)) objects"
  obtain files e where loop: "writeLoop env timestamp revisionType ?w ?pairs [] = (files, e)"
    by (cases "writeLoop env timestamp revisionType ?w ?pairs []")
  have run: "createRevisionWithMultipleAquaChain env timestamp revisionType =
      \<lparr>printed_proofs = map (getHexProof env ?tips) ?tips, written = files, ended = e\<rparr>"
    using assms(1,2) w loop
    by (simp add: createRevisionWithMultipleAquaChain_def Let_def)
  with assms(3) have "e = None" by simp
  with loop writeLoop_all [of env timestamp revisionType ?w ?pairs "[]" files]
  have all: "list_all2 (\<lambda>obj (path, obj').
      appendWitnessRevision env timestamp revisionType ?w obj = Inr obj') (map snd ?pairs) files"
    by simp
  have "length objects = length (split_comma (filename env))"
    using assms(2) by (simp add: readChains_def collect_length)
  then have "map snd ?pairs = objects"
    by simp
  with all have "list_all2 (\<lambda>obj (path, obj').
      appendWitnessRevision env timestamp revisionType ?w obj = Inr obj') objects files"
    by simp
  then have "list_all2
    (\<lambda>chain (path, obj).
       \<exists>vh vd. map_of (aqua_revisions obj) vh = Some vd \<and>
         obj_get vd ''previous_verification_hash'' = lastKey chain \<and>
         obj_get vd ''revision_type'' = JStr revisionType \<and>
         obj_get vd ''witness_merkle_root'' = ?root \<and>
         obj_get vd ''witness_merkle_proof'' = JArr ?tips) objects files"
  proof (rule list_all2_mono)
    fix chain :: aqua_object and entry :: "string \<times> aqua_object"
    assume "case entry of (path, obj') \<Rightarrow>
      appendWitnessRevision env timestamp revisionType ?w chain = Inr obj'"
    then obtain path obj' where entry: "entry = (path, obj')" and
      app: "appendWitnessRevision env timestamp revisionType ?w chain = Inr obj'"
      by (cases entry) auto
    from appendWitnessRevision_stored [OF app]
      witnessRevision_fields [OF w, of timestamp revisionType ?tips chain]
    show "case entry of (path, obj) \<Rightarrow>
       \<exists>vh vd. map_of (aqua_revisions obj) vh = Some vd \<and>
         obj_get vd ''previous_verification_hash'' = lastKey chain \<and>
         obj_get vd ''revision_type'' = JStr revisionType \<and>
         obj_get vd ''witness_merkle_root'' = ?root \<and>
         obj_get vd ''witness_merkle_proof'' = JArr ?tips"
      unfolding entry by blast
  qed
  with run show ?thesis by simp
qed

subsection \<open>The run over two files\<close>

lemma maybeUpdateFileIndex_other:
  "revisionType \<noteq> ''form'' \<Longrightarrow> revisionType \<noteq> ''file'' \<Longrightarrow> revisionType \<noteq> ''link'' \<Longrightarrow>
    maybeUpdateFileIndex env obj out revisionType = Inr obj"
  by (simp add: maybeUpdateFileIndex_def)

lemma writeLoop_witness:
  "snd (writeLoop env timestamp ''witness'' w pairs sofar) = None \<and>
   map fst (fst (writeLoop env timestamp ''witness'' w pairs sofar)) =
     map fst sofar @ map (\<lambda>p. fst p @ ''.aqua.json'') pairs"
proof (induction pairs arbitrary: sofar)
  case Nil
  show ?case by simp
next
  case (Cons p pairs)
  obtain current_file obj where p: "p = (current_file, obj)" by (cases p)
  show ?case
    by (simp add: p appendWitnessRevision_def Let_def maybeUpdateFileIndex_other Cons.IH)
qed

lemma sample_files: "CHR '','' \<in> set (filename sample_multi_builder)"
  by (simp add: sample_multi_builder_def sample_builder_def)

lemma sample_split: "split_comma (filename sample_multi_builder) = [''hello.txt'', ''notes.txt'']"
  by (simp add: sample_multi_builder_def sample_builder_def)

lemma sample_read:
  "readChains sample_multi_builder [''hello.txt'', ''notes.txt''] =
    Inr [hello_chain, notes_chain]"
  by (simp add: readChains_def sample_multi_builder_def sample_builder_def)

lemma sample_tips:
  "lastKey hello_chain = JStr hello_tip" "lastKey notes_chain = JStr notes_tip"
  by (simp_all add: lastKey_def hello_chain_def notes_chain_def)

lemma sample_prepareWitness:
  "\<exists>w. prepareWitness sample_multi_builder v = Inr w"
  by (simp add: prepareWitness_def sample_multi_builder_def sample_builder_def Let_def)

lemma sample_run:
  "ended (createRevisionWithMultipleAquaChain sample_multi_builder ts ''witness'') = None \<and>
   map fst (written (createRevisionWithMultipleAquaChain sample_multi_builder ts ''witness'')) =
     [''hello.txt.aqua.json'', ''notes.txt.aqua.json''] \<and>
   printed_proofs (createRevisionWithMultipleAquaChain sample_multi_builder ts ''witness'') =
     map (getHexProof sample_multi_builder [JStr hello_tip, JStr notes_tip])
       [JStr hello_tip, JStr notes_tip]"
proof -
  obtain w where w: "prepareWitness sample_multi_builder
      (JStr (getHexRoot sample_multi_builder [JStr hello_tip, JStr notes_tip])) = Inr w"
    using sample_prepareWitness by blast
  let ?loop = "writeLoop sample_multi_builder ts ''witness''
      (obj_set ''witness_merkle_proof'' (JArr [JStr hello_tip, JStr notes_tip]) w)
      (zip [''hello.txt'', ''notes.txt''] [hello_chain, notes_chain]) []"
  have run: "createRevisionWithMultipleAquaChain sample_multi_builder ts ''witness'' =
      \<lparr>printed_proofs =
         map (getHexProof sample_multi_builder [JStr hello_tip, JStr notes_tip])
           [JStr hello_tip, JStr notes_tip],
       written = fst ?loop, ended = snd ?loop\<rparr>"
    using sample_files
    by (simp add: createRevisionWithMultipleAquaChain_def Let_def sample_read sample_split
        sample_tips w split_def)
  show ?thesis
    unfolding run using writeLoop_witness [of sample_multi_builder ts
        "obj_set ''witness_merkle_proof'' (JArr [JStr hello_tip, JStr notes_tip]) w"
        "zip [''hello.txt'', ''notes.txt''] [hello_chain, notes_chain]" "[]"]
    by simp
qed

lemma sample_proofs:
  "map (getHexProof sample_multi_builder [JStr hello_tip, JStr notes_tip])
     [JStr hello_tip, JStr notes_tip] = [[notes_tip], [hello_tip]]"
  by (simp add: sample_multi_builder_def sample_builder_def tree_getHexProof_def Let_def
      bufferify_def startsWith_def hex_value_def hello_tip_def notes_tip_def hex_of_bytes_def
      hex_of_byte_def hex_digit_def)

lemma writeLoop_paths:
  "writeLoop env timestamp revisionType w pairs sofar = (files, None) \<Longrightarrow>
    map fst files = map fst sofar @ map (\<lambda>p. fst p @ ''.aqua.json'') pairs"
proof (induction pairs arbitrary: sofar)
  case Nil
  then show ?case by simp
next
  case (Cons p pairs)
  obtain current_file obj where p: "p = (current_file, obj)" by (cases p)
  from Cons.prems p obtain obj' where
    more: "writeLoop env timestamp revisionType w pairs
      (sofar @ [(current_file @ ''.aqua.json'', obj')]) = (files, None)"
    by (auto split: sum.splits)
  from Cons.IH [OF more] p show ?case by simp
qed

lemma appendWitnessRevision_appended:
  assumes "appendWitnessRevision env timestamp revisionType w obj = Inr obj'"
  shows "aqua_revisions obj' =
      obj_set (fst (witnessRevision env timestamp revisionType w obj))
        (snd (witnessRevision env timestamp revisionType w obj)) (aqua_revisions obj) \<and>
    (revisionType \<notin> {''form'', ''file'', ''link''} \<longrightarrow> file_index obj' = file_index obj)"
proof -
  let ?out = "witnessRevision env timestamp revisionType w obj"
  let ?stored = "obj\<lparr>aqua_revisions := obj_set (fst ?out) (snd ?out) (aqua_revisions obj)\<rparr>"
  from assms have upd: "maybeUpdateFileIndex env ?stored ?out revisionType = Inr obj'"
    by (simp add: appendWitnessRevision_def Let_def)
  from maybeUpdateFileIndex_revisions [OF upd]
  have "aqua_revisions obj' = obj_set (fst ?out) (snd ?out) (aqua_revisions obj)"
    by simp
  moreover have "file_index obj' = file_index obj"
    if "revisionType \<notin> {''form'', ''file'', ''link''}"
  proof -
    from that have "maybeUpdateFileIndex env ?stored ?out revisionType = Inr ?stored"
      by (intro maybeUpdateFileIndex_other) simp_all
    with upd have "obj' = ?stored" by simp
    then show ?thesis by simp
  qed
  ultimately show ?thesis by blast
qed

text \<open>
  Claim C2, as amended. In a run over several files that ends without an error, the Merkle
  proofs of the tips, one for each tip, are computed and printed (lines 236 to 241), and
  one file is written for each chain, under the name of its file followed by
  \<^verbatim>\<open>.aqua.json\<close>. The object written is the object read with one revision set under its
  verification hash, both as \<open>witnessRevision\<close> gives them, and with the file index of the
  object read when the revision type has no entry in it. The revision is parented at the
  tip of its chain and of the type asked for, its \<open>witness_merkle_root\<close> is the root over
  all the tips and its \<open>witness_merkle_proof\<close> is the list of all the tips (line 245), the
  same list for every chain: the printed proofs are not stored.
\<close>

theorem multi_chain_witness_proof:
  assumes "CHR '','' \<in> set (filename env)"
    and "readChains env (split_comma (filename env)) = Inr objects"
    and "ended (createRevisionWithMultipleAquaChain env timestamp revisionType) = None"
  shows "printed_proofs (createRevisionWithMultipleAquaChain env timestamp revisionType) =
      map (getHexProof env (map lastKey objects)) (map lastKey objects) \<and>
    map fst (written (createRevisionWithMultipleAquaChain env timestamp revisionType)) =
      map (\<lambda>current_file. current_file @ ''.aqua.json'') (split_comma (filename env)) \<and>
    (\<exists>witnessResult.
       prepareWitness env (JStr (getHexRoot env (map lastKey objects))) = Inr witnessResult \<and>
       list_all2
        (\<lambda>chain obj. \<exists>vh vd.
           witnessRevision env timestamp revisionType
             (obj_set ''witness_merkle_proof'' (JArr (map lastKey objects)) witnessResult)
             chain = (vh, vd) \<and>
           aqua_revisions obj = obj_set vh vd (aqua_revisions chain) \<and>
           (revisionType \<notin> {''form'', ''file'', ''link''} \<longrightarrow>
              file_index obj = file_index chain) \<and>
           obj_get vd ''previous_verification_hash'' = lastKey chain \<and>
           obj_get vd ''revision_type'' = JStr revisionType \<and>
           obj_get vd ''witness_merkle_root'' = JStr (getHexRoot env (map lastKey objects)) \<and>
           obj_get vd ''witness_merkle_proof'' = JArr (map lastKey objects))
        objects
        (map snd (written (createRevisionWithMultipleAquaChain env timestamp revisionType))))"
proof -
  let ?tips = "map lastKey objects"
  let ?root = "JStr (getHexRoot env ?tips)"
  from assms obtain w where w: "prepareWitness env ?root = Inr w"
    by (auto simp add: createRevisionWithMultipleAquaChain_def Let_def split: sum.splits)
  let ?w = "obj_set ''witness_merkle_proof'' (JArr ?tips) w"
  let ?pairs = "zip (split_comma (filename env)) objects"
  obtain files e where loop: "writeLoop env timestamp revisionType ?w ?pairs [] = (files, e)"
    by (cases "writeLoop env timestamp revisionType ?w ?pairs []")
  have run: "createRevisionWithMultipleAquaChain env timestamp revisionType =
      \<lparr>printed_proofs = map (getHexProof env ?tips) ?tips, written = files, ended = e\<rparr>"
    using assms(1,2) w loop
    by (simp add: createRevisionWithMultipleAquaChain_def Let_def)
  with assms(3) have none: "e = None" by simp
  have len: "length objects = length (split_comma (filename env))"
    using assms(2) by (simp add: readChains_def collect_length)
  then have names: "map fst ?pairs = split_comma (filename env)" and
    objs: "map snd ?pairs = objects"
    by simp_all
  from loop none writeLoop_paths [of env timestamp revisionType ?w ?pairs "[]" files]
  have "map fst files = map (\<lambda>p. fst p @ ''.aqua.json'') ?pairs"
    by simp
  also have "\<dots> = map (\<lambda>current_file. current_file @ ''.aqua.json'') (map fst ?pairs)"
    by (simp add: comp_def)
  finally have paths: "map fst files =
      map (\<lambda>current_file. current_file @ ''.aqua.json'') (split_comma (filename env))"
    by (simp only: names)
  from loop none writeLoop_all [of env timestamp revisionType ?w ?pairs "[]" files] objs
  have "list_all2 (\<lambda>obj (path, obj').
      appendWitnessRevision env timestamp revisionType ?w obj = Inr obj') objects files"
    by simp
  then have "list_all2 (\<lambda>obj obj'.
      appendWitnessRevision env timestamp revisionType ?w obj = Inr obj') objects (map snd files)"
    by (simp add: list_all2_map2 split_def)
  then have "list_all2
    (\<lambda>chain obj. \<exists>vh vd.
       witnessRevision env timestamp revisionType ?w chain = (vh, vd) \<and>
       aqua_revisions obj = obj_set vh vd (aqua_revisions chain) \<and>
       (revisionType \<notin> {''form'', ''file'', ''link''} \<longrightarrow> file_index obj = file_index chain) \<and>
       obj_get vd ''previous_verification_hash'' = lastKey chain \<and>
       obj_get vd ''revision_type'' = JStr revisionType \<and>
       obj_get vd ''witness_merkle_root'' = ?root \<and>
       obj_get vd ''witness_merkle_proof'' = JArr ?tips) objects (map snd files)"
  proof (rule list_all2_mono)
    fix chain obj' :: aqua_object
    assume app: "appendWitnessRevision env timestamp revisionType ?w chain = Inr obj'"
    obtain vh vd where out: "witnessRevision env timestamp revisionType ?w chain = (vh, vd)"
      by (cases "witnessRevision env timestamp revisionType ?w chain")
    from appendWitnessRevision_appended [OF app]
      witnessRevision_fields [OF w, of timestamp revisionType ?tips chain]
    show "\<exists>vh vd.
       witnessRevision env timestamp revisionType ?w chain = (vh, vd) \<and>
       aqua_revisions obj' = obj_set vh vd (aqua_revisions chain) \<and>
       (revisionType \<notin> {''form'', ''file'', ''link''} \<longrightarrow> file_index obj' = file_index chain) \<and>
       obj_get vd ''previous_verification_hash'' = lastKey chain \<and>
       obj_get vd ''revision_type'' = JStr revisionType \<and>
       obj_get vd ''witness_merkle_root'' = ?root \<and>
       obj_get vd ''witness_merkle_proof'' = JArr ?tips"
      unfolding out by simp
  qed
  with run paths w show ?thesis by simp
qed

text \<open>Witness for C2: the run over \<^verbatim>\<open>hello.txt,notes.txt\<close>.\<close>

theorem multi_chain_witness_proof_witness:
  "CHR '','' \<in> set (filename sample_multi_builder) \<and>
   readChains sample_multi_builder (split_comma (filename sample_multi_builder)) =
     Inr [hello_chain, notes_chain] \<and>
   ended (createRevisionWithMultipleAquaChain sample_multi_builder ''20240103000000''
     ''witness'') = None \<and>
   printed_proofs (createRevisionWithMultipleAquaChain sample_multi_builder ''20240103000000''
     ''witness'') = [[notes_tip], [hello_tip]] \<and>
   map fst (written (createRevisionWithMultipleAquaChain sample_multi_builder
     ''20240103000000'' ''witness'')) = [''hello.txt.aqua.json'', ''notes.txt.aqua.json''] \<and>
   (\<exists>witnessResult.
      prepareWitness sample_multi_builder
        (JStr (getHexRoot sample_multi_builder [JStr hello_tip, JStr notes_tip])) =
        Inr witnessResult \<and>
      list_all2
       (\<lambda>chain obj. \<exists>vh vd.
          witnessRevision sample_multi_builder ''20240103000000'' ''witness''
            (obj_set ''witness_merkle_proof'' (JArr [JStr hello_tip, JStr notes_tip])
              witnessResult)
            chain = (vh, vd) \<and>
          aqua_revisions obj = obj_set vh vd (aqua_revisions chain) \<and>
          file_index obj = file_index chain \<and>
          obj_get vd ''previous_verification_hash'' = lastKey chain \<and>
          obj_get vd ''revision_type'' = JStr ''witness'' \<and>
          obj_get vd ''witness_merkle_root'' =
            JStr (getHexRoot sample_multi_builder [JStr hello_tip, JStr notes_tip]) \<and>
          obj_get vd ''witness_merkle_proof'' = JArr [JStr hello_tip, JStr notes_tip])
       [hello_chain, notes_chain]
       (map snd (written (createRevisionWithMultipleAquaChain sample_multi_builder
         ''20240103000000'' ''witness''))))"
proof -
  have files: "CHR '','' \<in> set (filename sample_multi_builder)"
    by (rule sample_files)
  have read: "readChains sample_multi_builder (split_comma (filename sample_multi_builder)) =
      Inr [hello_chain, notes_chain]"
    by (simp only: sample_split sample_read)
  have ended: "ended (createRevisionWithMultipleAquaChain sample_multi_builder
      ''20240103000000'' ''witness'') = None"
    using sample_run [of "''20240103000000''"] by blast
  have tips: "map lastKey [hello_chain, notes_chain] = [JStr hello_tip, JStr notes_tip]"
    by (simp add: sample_tips)
  have kind: "(''witness'' \<notin> {''form'', ''file'', ''link''} \<longrightarrow> A) = A" for A
    by simp
  from multi_chain_witness_proof [OF files read ended, unfolded tips sample_split kind
      sample_proofs] files read ended
  show ?thesis by simp
qed

text \<open>Counterexample to C2 as stated: in the run over \<^verbatim>\<open>hello.txt,notes.txt\<close> the two tips
  differ, the proof of the tip of \<^verbatim>\<open>hello.txt\<close> is the tip of \<^verbatim>\<open>notes.txt\<close> and conversely,
  and both witness revisions store the same list, the two tips.\<close>

theorem shared_proof_counterexample:
  "\<exists>a b va vb.
     written (createRevisionWithMultipleAquaChain sample_multi_builder ''20240103000000''
       ''witness'') = [(''hello.txt.aqua.json'', a), (''notes.txt.aqua.json'', b)] \<and>
     va \<in> snd ` set (aqua_revisions a) \<and>
     obj_get va ''previous_verification_hash'' = JStr hello_tip \<and>
     obj_get va ''revision_type'' = JStr ''witness'' \<and>
     obj_get va ''witness_merkle_proof'' = JArr [JStr hello_tip, JStr notes_tip] \<and>
     vb \<in> snd ` set (aqua_revisions b) \<and>
     obj_get vb ''previous_verification_hash'' = JStr notes_tip \<and>
     obj_get vb ''revision_type'' = JStr ''witness'' \<and>
     obj_get vb ''witness_merkle_proof'' = JArr [JStr hello_tip, JStr notes_tip] \<and>
     getHexProof sample_multi_builder [JStr hello_tip, JStr notes_tip] (JStr hello_tip) =
       [notes_tip] \<and>
     getHexProof sample_multi_builder [JStr hello_tip, JStr notes_tip] (JStr notes_tip) =
       [hello_tip] \<and>
     hello_tip \<noteq> notes_tip"
proof -
  let ?run = "createRevisionWithMultipleAquaChain sample_multi_builder ''20240103000000''
    ''witness''"
  have read: "readChains sample_multi_builder (split_comma (filename sample_multi_builder)) =
      Inr [hello_chain, notes_chain]"
    by (simp only: sample_split sample_read)
  have ended: "ended ?run = None" and names: "map fst (written ?run) =
      [''hello.txt.aqua.json'', ''notes.txt.aqua.json'']"
    using sample_run [of "''20240103000000''"] by blast+
  from multi_chain_stored [OF sample_files read ended]
  have "\<exists>pa a pb b. written ?run = [(pa, a), (pb, b)] \<and>
      (\<exists>vh vd. map_of (aqua_revisions a) vh = Some vd \<and>
         obj_get vd ''previous_verification_hash'' = lastKey hello_chain \<and>
         obj_get vd ''revision_type'' = JStr ''witness'' \<and>
         obj_get vd ''witness_merkle_proof'' = JArr [lastKey hello_chain, lastKey notes_chain]) \<and>
      (\<exists>vh vd. map_of (aqua_revisions b) vh = Some vd \<and>
         obj_get vd ''previous_verification_hash'' = lastKey notes_chain \<and>
         obj_get vd ''revision_type'' = JStr ''witness'' \<and>
         obj_get vd ''witness_merkle_proof'' = JArr [lastKey hello_chain, lastKey notes_chain])"
    by (auto simp add: list_all2_Cons1) blast+
  then obtain pa a pb b where written: "written ?run = [(pa, a), (pb, b)]"
    and a: "\<exists>vh vd. map_of (aqua_revisions a) vh = Some vd \<and>
         obj_get vd ''previous_verification_hash'' = lastKey hello_chain \<and>
         obj_get vd ''revision_type'' = JStr ''witness'' \<and>
         obj_get vd ''witness_merkle_proof'' = JArr [lastKey hello_chain, lastKey notes_chain]"
    and b: "\<exists>vh vd. map_of (aqua_revisions b) vh = Some vd \<and>
         obj_get vd ''previous_verification_hash'' = lastKey notes_chain \<and>
         obj_get vd ''revision_type'' = JStr ''witness'' \<and>
         obj_get vd ''witness_merkle_proof'' = JArr [lastKey hello_chain, lastKey notes_chain]"
    by blast
  from names written have paths: "pa = ''hello.txt.aqua.json''" "pb = ''notes.txt.aqua.json''"
    by simp_all
  from a obtain vha va where va: "map_of (aqua_revisions a) vha = Some va"
    "obj_get va ''previous_verification_hash'' = JStr hello_tip"
    "obj_get va ''revision_type'' = JStr ''witness''"
    "obj_get va ''witness_merkle_proof'' = JArr [JStr hello_tip, JStr notes_tip]"
    by (auto simp add: sample_tips)
  from b obtain vhb vb where vb: "map_of (aqua_revisions b) vhb = Some vb"
    "obj_get vb ''previous_verification_hash'' = JStr notes_tip"
    "obj_get vb ''revision_type'' = JStr ''witness''"
    "obj_get vb ''witness_merkle_proof'' = JArr [JStr hello_tip, JStr notes_tip]"
    by (auto simp add: sample_tips)
  from va(1) have ina: "va \<in> snd ` set (aqua_revisions a)"
    by (metis map_of_SomeD image_eqI snd_conv)
  from vb(1) have inb: "vb \<in> snd ` set (aqua_revisions b)"
    by (metis map_of_SomeD image_eqI snd_conv)
  have differ: "hello_tip \<noteq> notes_tip"
    by (simp add: hello_tip_def notes_tip_def)
  from sample_proofs have proofs:
    "getHexProof sample_multi_builder [JStr hello_tip, JStr notes_tip] (JStr hello_tip) =
       [notes_tip]"
    "getHexProof sample_multi_builder [JStr hello_tip, JStr notes_tip] (JStr notes_tip) =
       [hello_tip]"
    by simp_all
  from written paths ina inb va(2-4) vb(2-4) proofs differ show ?thesis
    by blast
qed

end
